theory Spec2Isabelle
  imports Complex_Main
begin

section \<open>Data model of the invoice repository\<close>

text \<open>
  The development embeds \<^verbatim>\<open>repositories/invoice_repo.py\<close> (class
  \<^verbatim>\<open>InvoiceRepository\<close>), the tables of \<^verbatim>\<open>models/invoice_models.py\<close>, the
  settings of \<^verbatim>\<open>config.py\<close> and the exception mapping of
  \<^verbatim>\<open>api/invoice_api.py\<close>.

  Conventions of the embedding:
  \<^item> a \<^verbatim>\<open>Decimal\<close> is an exact rational. Python evaluates \<^verbatim>\<open>+\<close>, \<^verbatim>\<open>-\<close>,
    \<^verbatim>\<open>*\<close> and the division by \<^verbatim>\<open>Decimal(100)\<close> exactly as long as the result has at
    most 28 significant digits (the default context), which is the range modelled here;
    the special values (NaN, infinities) are not modelled;
  \<^item> a timezone-aware \<^verbatim>\<open>datetime\<close> is an integer count of microseconds since
    1970-01-01 00:00 UTC;
  \<^item> a nullable column is an \<open>option\<close>, except the columns of an invoice and of
    its items that \<^verbatim>\<open>create_on_the_fly\<close> always writes (the amounts and the status of
    the invoice, the type and the sort order of an item), which are plain values;
  \<^item> a table is the list of its rows in the order the database returns them, so that
    \<^verbatim>\<open>.first()\<close> is the first row that passes the filter;
  \<^item> the database is the PostgreSQL database of \<^verbatim>\<open>database.py\<close>. It refuses a row
    that repeats a unique key or refers to a missing row (\<^verbatim>\<open>IntegrityError\<close>) and a
    value outside the range of its column (\<^verbatim>\<open>DataError\<close>), and it stores a
    \<^verbatim>\<open>NUMERIC(p, s)\<close> value rounded to \<open>s\<close> decimal places, half away from zero.
    Connection failures are outside the model;
  \<^item> the random identifiers and the primary keys the database assigns are supplied by
    the caller (record \<open>env\<close>); the clock of Python is read once per call, and so is the
    clock of the database (\<^verbatim>\<open>now()\<close>, the time of the transaction).
\<close>

type_synonym decimal = rat
type_synonym datetime = int

datatype error = ValueError string | TypeError | OverflowError | IntegrityError | DataError

record invoice_settings =
  INVOICE_NUMBER_PREFIX :: string
  INVOICE_NUMBER_LENGTH :: int
  DEFAULT_SST_RATE :: decimal
  SHARE_LINK_EXPIRY_DAYS :: int

record package =
  pkg_bubble_id :: string
  pkg_name :: "string option"
  pkg_price :: "decimal option"
  pkg_invoice_desc :: "string option"

record customer =
  cust_id :: int
  cust_customer_id :: string
  cust_name :: string
  cust_phone :: "string option"
  cust_email :: "string option"
  cust_address :: "string option"
  cust_created_by :: "int option"

record voucher =
  vch_voucher_code :: "string option"
  vch_discount_amount :: "decimal option"
  vch_discount_percent :: "int option"
  vch_active :: "bool option"

record invoice_template =
  tmpl_bubble_id :: string
  tmpl_apply_sst :: "bool option"
  tmpl_active :: "bool option"
  tmpl_is_default :: "bool option"

record invoice_new_item =
  item_bubble_id :: string
  item_invoice_id :: "string option"
  item_description :: string
  item_qty :: decimal
  item_unit_price :: decimal
  item_total_price :: decimal
  item_type :: string
  item_sort_order :: int

text \<open>
  The table \<^verbatim>\<open>invoice_new\<close> with all its columns, in the order of the model class
  (\<open>row_id\<close> is the primary key \<^verbatim>\<open>id\<close>).
\<close>

record invoice_new =
  row_id :: int
  bubble_id :: string
  template_id :: "string option"
  customer_id :: "int option"
  customer_name_snapshot :: string
  customer_address_snapshot :: "string option"
  customer_phone_snapshot :: "string option"
  customer_email_snapshot :: "string option"
  agent_id :: "string option"
  agent_name_snapshot :: "string option"
  package_id :: "string option"
  package_name_snapshot :: "string option"
  invoice_number :: string
  invoice_date :: string
  due_date :: "string option"
  subtotal :: decimal
  agent_markup :: decimal
  sst_rate :: decimal
  sst_amount :: decimal
  discount_amount :: decimal
  discount_fixed :: decimal
  discount_percent :: decimal
  voucher_code :: "string option"
  voucher_amount :: decimal
  total_amount :: decimal
  status :: string
  paid_amount :: "decimal option"
  internal_notes :: "string option"
  customer_notes :: "string option"
  share_token :: "string option"
  share_enabled :: "bool option"
  share_expires_at :: "datetime option"
  share_access_count :: "int option"
  linked_old_invoice :: "string option"
  migration_status :: "string option"
  created_by :: "int option"
  created_at :: "datetime option"
  updated_at :: "datetime option"
  sent_at :: "datetime option"
  viewed_at :: "datetime option"
  paid_at :: "datetime option"

text \<open>
  The database as one session sees it: \<open>stored\<close> holds the committed rows,
  \<open>working\<close> the rows of the open transaction, with the values Python assigned to the
  objects the session holds (\<^verbatim>\<open>db.add\<close> with \<^verbatim>\<open>db.flush\<close> and attribute
  assignments change \<open>working\<close> only). \<open>users\<close> are the primary keys of the table
  \<^verbatim>\<open>user\<close>, which the models refer to by foreign keys only. A commit that succeeds
  makes the rows of the transaction the stored ones; a flush or commit the database
  refuses rolls the transaction back.
\<close>

record tables =
  users :: "int list"
  packages :: "package list"
  customers :: "customer list"
  vouchers :: "voucher list"
  templates :: "invoice_template list"
  invoices :: "invoice_new list"
  items :: "invoice_new_item list"

record session =
  stored :: tables
  working :: tables

definition commit :: "session \<Rightarrow> session" where
  "commit s = s\<lparr>stored := working s\<rparr>"

definition rollback :: "session \<Rightarrow> session" where
  "rollback s = s\<lparr>working := stored s\<rparr>"

subsection \<open>Python truth values\<close>

definition truthy_bool :: "bool option \<Rightarrow> bool" where
  "truthy_bool b = (b = Some True)"

definition truthy_str :: "string option \<Rightarrow> bool" where
  "truthy_str s = (case s of None \<Rightarrow> False | Some t \<Rightarrow> t \<noteq> [])"

definition truthy_decimal :: "decimal option \<Rightarrow> bool" where
  "truthy_decimal d = (case d of None \<Rightarrow> False | Some x \<Rightarrow> x \<noteq> 0)"

definition truthy_int :: "int option \<Rightarrow> bool" where
  "truthy_int d = (case d of None \<Rightarrow> False | Some x \<Rightarrow> x \<noteq> 0)"

subsection \<open>Column types of the database\<close>

text \<open>
  A \<^verbatim>\<open>NUMERIC(precision, scale)\<close> column stores its value rounded to \<open>scale\<close>
  decimal places, ties away from zero, and refuses a value whose rounding has more than
  \<open>precision - scale\<close> digits before the decimal point. An \<^verbatim>\<open>Integer\<close> column holds
  32 bits.
\<close>

definition round_half_away :: "decimal \<Rightarrow> int" where
  "round_half_away x = (if 0 \<le> x then \<lfloor>x + 1 / 2\<rfloor> else - \<lfloor>- x + 1 / 2\<rfloor>)"

definition numeric_round :: "nat \<Rightarrow> decimal \<Rightarrow> decimal" where
  "numeric_round scale x = of_int (round_half_away (x * 10 ^ scale)) / 10 ^ scale"

definition numeric_overflow :: "nat \<Rightarrow> nat \<Rightarrow> decimal \<Rightarrow> bool" where
  "numeric_overflow precision scale x = (10 ^ (precision - scale) \<le> \<bar>numeric_round scale x\<bar>)"

definition integer_overflow :: "int \<Rightarrow> bool" where
  "integer_overflow n = (n < - 2147483648 \<or> 2147483647 < n)"

definition integer_overflow_opt :: "int option \<Rightarrow> bool" where
  "integer_overflow_opt n = (case n of None \<Rightarrow> False | Some k \<Rightarrow> integer_overflow k)"

definition numeric_overflow_opt :: "nat \<Rightarrow> nat \<Rightarrow> decimal option \<Rightarrow> bool" where
  "numeric_overflow_opt precision scale x =
     (case x of None \<Rightarrow> False | Some y \<Rightarrow> numeric_overflow precision scale y)"

text \<open>The rows as the database stores them: every numeric column rounded to its scale.\<close>

definition stored_item :: "invoice_new_item \<Rightarrow> invoice_new_item" where
  "stored_item it =
     it\<lparr>item_qty := numeric_round 2 (item_qty it),
        item_unit_price := numeric_round 2 (item_unit_price it),
        item_total_price := numeric_round 2 (item_total_price it)\<rparr>"

definition stored_invoice :: "invoice_new \<Rightarrow> invoice_new" where
  "stored_invoice i =
     i\<lparr>subtotal := numeric_round 2 (subtotal i),
       agent_markup := numeric_round 2 (agent_markup i),
       sst_rate := numeric_round 2 (sst_rate i),
       sst_amount := numeric_round 2 (sst_amount i),
       discount_amount := numeric_round 2 (discount_amount i),
       discount_fixed := numeric_round 2 (discount_fixed i),
       discount_percent := numeric_round 2 (discount_percent i),
       voucher_amount := numeric_round 2 (voucher_amount i),
       total_amount := numeric_round 2 (total_amount i),
       paid_amount := map_option (numeric_round 2) (paid_amount i)\<rparr>"

text \<open>
  The checks of an \<^verbatim>\<open>INSERT\<close> or \<^verbatim>\<open>UPDATE\<close>. The values are converted to the
  types of their columns first (\<^verbatim>\<open>DataError\<close>), then the unique keys and the
  foreign keys are checked (\<^verbatim>\<open>IntegrityError\<close>).
\<close>

definition user_missing :: "tables \<Rightarrow> int option \<Rightarrow> bool" where
  "user_missing db u = (case u of None \<Rightarrow> False | Some k \<Rightarrow> k \<notin> set (users db))"

definition insert_customer_error :: "tables \<Rightarrow> customer \<Rightarrow> error option" where
  "insert_customer_error db c =
     (if integer_overflow_opt (cust_created_by c) then Some DataError
      else if cust_customer_id c \<in> set (map cust_customer_id (customers db))
              \<or> user_missing db (cust_created_by c)
      then Some IntegrityError
      else None)"

definition invoice_overflow :: "invoice_new \<Rightarrow> bool" where
  "invoice_overflow i =
     (numeric_overflow 15 2 (subtotal i)
      \<or> numeric_overflow 15 2 (agent_markup i)
      \<or> numeric_overflow 5 2 (sst_rate i)
      \<or> numeric_overflow 15 2 (sst_amount i)
      \<or> numeric_overflow 15 2 (discount_amount i)
      \<or> numeric_overflow 15 2 (discount_fixed i)
      \<or> numeric_overflow 5 2 (discount_percent i)
      \<or> numeric_overflow 15 2 (voucher_amount i)
      \<or> numeric_overflow 15 2 (total_amount i)
      \<or> numeric_overflow_opt 15 2 (paid_amount i)
      \<or> integer_overflow_opt (share_access_count i)
      \<or> integer_overflow_opt (created_by i))"

definition invoice_keys_taken :: "tables \<Rightarrow> invoice_new \<Rightarrow> bool" where
  "invoice_keys_taken db i =
     (bubble_id i \<in> set (map bubble_id (invoices db))
      \<or> invoice_number i \<in> set (map invoice_number (invoices db))
      \<or> (share_token i \<noteq> None \<and> share_token i \<in> set (map share_token (invoices db))))"

definition invoice_references_missing :: "tables \<Rightarrow> invoice_new \<Rightarrow> bool" where
  "invoice_references_missing db i =
     ((case customer_id i of None \<Rightarrow> False | Some k \<Rightarrow> k \<notin> set (map cust_id (customers db)))
      \<or> user_missing db (created_by i))"

definition insert_invoice_error :: "tables \<Rightarrow> invoice_new \<Rightarrow> error option" where
  "insert_invoice_error db i =
     (if invoice_overflow i then Some DataError
      else if invoice_keys_taken db i \<or> invoice_references_missing db i then Some IntegrityError
      else None)"

definition item_overflow :: "invoice_new_item \<Rightarrow> bool" where
  "item_overflow it =
     (numeric_overflow 10 2 (item_qty it)
      \<or> numeric_overflow 15 2 (item_unit_price it)
      \<or> numeric_overflow 15 2 (item_total_price it)
      \<or> integer_overflow (item_sort_order it))"

definition insert_item_error :: "tables \<Rightarrow> invoice_new_item \<Rightarrow> error option" where
  "insert_item_error db it =
     (if item_overflow it then Some DataError
      else if item_bubble_id it \<in> set (map item_bubble_id (items db))
              \<or> (case item_invoice_id it of
                    None \<Rightarrow> False
                  | Some b \<Rightarrow> b \<notin> set (map bubble_id (invoices db)))
      then Some IntegrityError
      else None)"

text \<open>The pending items are inserted one after the other, in the order they were added.\<close>

fun insert_items :: "tables \<Rightarrow> invoice_new_item list \<Rightarrow> error + tables" where
  "insert_items db [] = Inr db"
| "insert_items db (it # its) =
     (case insert_item_error db it of
        Some err \<Rightarrow> Inl err
      | None \<Rightarrow> insert_items (db\<lparr>items := items db @ [stored_item it]\<rparr>) its)"

section \<open>Invoice totals\<close>

text \<open>
  \<^verbatim>\<open>invoice.items\<close> is the relationship over the foreign key
  \<^verbatim>\<open>invoice_new_item.invoice_id\<close>; the fallback query of the source filters on the
  same key.
\<close>

definition invoice_items :: "tables \<Rightarrow> invoice_new \<Rightarrow> invoice_new_item list" where
  "invoice_items db invoice =
     filter (\<lambda>item. item_invoice_id item = Some (bubble_id invoice)) (items db)"

definition query_items :: "tables \<Rightarrow> invoice_new \<Rightarrow> invoice_new_item list" where
  "query_items db invoice =
     filter (\<lambda>item. item_invoice_id item = Some (bubble_id invoice)) (items db)"

definition calculate_invoice_totals :: "tables \<Rightarrow> invoice_new \<Rightarrow> invoice_new" where
  "calculate_invoice_totals db invoice =
     (let items0 = invoice_items db invoice;
          items1 = (if items0 = [] then query_items db invoice else items0);
          subtotal1 = (if items1 \<noteq> [] then sum_list (map item_total_price items1) else 0);
          discount_items = filter (\<lambda>item. item_type item = ''discount'') items1;
          discount_from_items = sum_list (map (\<lambda>item. \<bar>item_total_price item\<bar>) discount_items);
          voucher_items = filter (\<lambda>item. item_type item = ''voucher'') items1;
          voucher_from_items = sum_list (map (\<lambda>item. \<bar>item_total_price item\<bar>) voucher_items);
          taxable_amount = subtotal1;
          sst = (if taxable_amount > 0 then taxable_amount * (sst_rate invoice / 100) else 0)
      in invoice\<lparr>subtotal := subtotal1,
                 discount_amount := discount_from_items,
                 voucher_amount := voucher_from_items,
                 sst_amount := sst,
                 total_amount := taxable_amount + sst\<rparr>)"

section \<open>Invoice numbers\<close>

subsection \<open>The string functions of Python that the generator calls\<close>

text \<open>
  \<^verbatim>\<open>s.replace(old, "")\<close>: every non-overlapping occurrence of \<open>old\<close>, found from
  the left, is removed (for an empty \<open>old\<close> the string is returned as it is).
\<close>

fun replace_with_empty :: "string \<Rightarrow> string \<Rightarrow> string" where
  "replace_with_empty old [] = []"
| "replace_with_empty old (c # cs) =
     (if old \<noteq> [] \<and> take (length old) (c # cs) = old
      then replace_with_empty old (drop (length old) (c # cs))
      else c # replace_with_empty old cs)"

definition is_digit :: "char \<Rightarrow> bool" where
  "is_digit c = (48 \<le> (of_char c :: nat) \<and> (of_char c :: nat) \<le> 57)"

definition digit_value :: "char \<Rightarrow> nat" where
  "digit_value c = of_char c - 48"

text \<open>
  The white space \<^verbatim>\<open>int()\<close> strips, among the code points below 256 (the characters
  of this embedding): the ASCII control characters 9 to 13 and 28 to 31, the space, the
  next-line character 133 and the no-break space 160.
\<close>

definition is_space :: "char \<Rightarrow> bool" where
  "is_space c = ((9 \<le> (of_char c :: nat) \<and> (of_char c :: nat) \<le> 13)
                 \<or> (28 \<le> (of_char c :: nat) \<and> (of_char c :: nat) \<le> 32)
                 \<or> (of_char c :: nat) = 133
                 \<or> (of_char c :: nat) = 160)"

definition strip :: "string \<Rightarrow> string" where
  "strip s = rev (dropWhile is_space (rev (dropWhile is_space s)))"

text \<open>
  The digits of \<^verbatim>\<open>int(s)\<close> after the sign: decimal digits, where a single underscore
  may stand between two digits. \<open>acc\<close> is the value read so far.
\<close>

fun int_digits :: "nat \<Rightarrow> string \<Rightarrow> nat option" where
  "int_digits acc [] = Some acc"
| "int_digits acc [c] = (if is_digit c then Some (10 * acc + digit_value c) else None)"
| "int_digits acc (c # d # cs) =
     (if is_digit c then int_digits (10 * acc + digit_value c) (d # cs)
      else if c = CHR ''_'' \<and> is_digit d then int_digits (10 * acc + digit_value d) cs
      else None)"

text \<open>
  \<^verbatim>\<open>int(s)\<close> on a string of code points below 256, where the decimal digits are the
  ASCII ones: \<open>None\<close> is the \<^verbatim>\<open>ValueError\<close>. (The interpreter's limit on the number
  of digits is not modelled.)
\<close>

definition py_int :: "string \<Rightarrow> int option" where
  "py_int s =
     (case strip s of
        [] \<Rightarrow> None
      | c # cs \<Rightarrow>
          (let body = (if c = CHR ''-'' \<or> c = CHR ''+'' then cs else c # cs) in
           (case body of
              [] \<Rightarrow> None
            | b # bs \<Rightarrow>
                if is_digit b
                then (case int_digits 0 body of
                        None \<Rightarrow> None
                      | Some n \<Rightarrow> Some (if c = CHR ''-'' then - int n else int n))
                else None)))"

text \<open>
  \<^verbatim>\<open>str(n)\<close> for an integer: the decimal digits, most significant first, after a
  minus sign when the integer is negative.
\<close>

function str_nat :: "nat \<Rightarrow> string" where
  "str_nat n =
     (if n < 10 then [''0123456789'' ! n]
      else str_nat (n div 10) @ [''0123456789'' ! (n mod 10)])"
  by pat_completeness auto
termination
  by (relation "measure (\<lambda>n. n)") auto

declare str_nat.simps [simp del]

definition py_str :: "int \<Rightarrow> string" where
  "py_str i = (if i < 0 then CHR ''-'' # str_nat (nat (- i)) else str_nat (nat i))"

text \<open>\<^verbatim>\<open>s.zfill(width)\<close>: zeros are put after a leading sign.\<close>

definition zfill :: "string \<Rightarrow> int \<Rightarrow> string" where
  "zfill s width =
     (if width \<le> int (length s) then s
      else (case s of
              [] \<Rightarrow> replicate (nat width) CHR ''0''
            | c # cs \<Rightarrow>
                if c = CHR ''+'' \<or> c = CHR ''-''
                then c # replicate (nat width - length s) CHR ''0'' @ cs
                else replicate (nat width - length s) CHR ''0'' @ s))"

subsection \<open>The generator\<close>

text \<open>
  \<^verbatim>\<open>order_by(InvoiceNew.invoice_number.desc()).first()\<close> compares the numbers as
  strings. \<open>str_less\<close> is the order of the code points, character by character.
\<close>

fun str_less :: "string \<Rightarrow> string \<Rightarrow> bool" where
  "str_less [] [] = False"
| "str_less [] (y # ys) = True"
| "str_less (x # xs) [] = False"
| "str_less (x # xs) (y # ys) =
     ((of_char x :: nat) < of_char y \<or> (x = y \<and> str_less xs ys))"

fun last_invoice :: "invoice_new list \<Rightarrow> invoice_new option" where
  "last_invoice [] = None"
| "last_invoice (x # xs) =
     (case last_invoice xs of
        None \<Rightarrow> Some x
      | Some y \<Rightarrow> if str_less (invoice_number x) (invoice_number y) then Some y else Some x)"

definition generate_invoice_number :: "invoice_settings \<Rightarrow> tables \<Rightarrow> string" where
  "generate_invoice_number cfg db =
     (let next_num =
            (case last_invoice (invoices db) of
               Some last_inv \<Rightarrow>
                 (case py_int (replace_with_empty (INVOICE_NUMBER_PREFIX cfg @ ''-'')
                                 (invoice_number last_inv)) of
                    Some last_num \<Rightarrow> last_num + 1
                  | None \<Rightarrow> 1)
             | None \<Rightarrow> 1);
          num_str = zfill (py_str next_num) (INVOICE_NUMBER_LENGTH cfg)
      in INVOICE_NUMBER_PREFIX cfg @ ''-'' @ num_str)"


section \<open>Creating an invoice from a package\<close>

text \<open>
  What \<^verbatim>\<open>create_on_the_fly\<close> reads from outside the tables: the clock, the random
  tokens of \<^verbatim>\<open>secrets\<close>, the text \<^verbatim>\<open>str()\<close> prints for a \<^verbatim>\<open>Decimal\<close>, and from
  the database the primary keys of the new customer and invoice and the time
  \<^verbatim>\<open>now()\<close> of the transaction. \<open>item_tokens k\<close> is the token of the \<open>k\<close>-th line
  item created.
\<close>

record env =
  now :: datetime
  today :: string
  db_now :: datetime
  customer_token :: string
  new_customer_pk :: int
  invoice_token :: string
  new_invoice_pk :: int
  share_token_urlsafe :: string
  item_tokens :: "nat \<Rightarrow> string"
  str_decimal :: "decimal \<Rightarrow> string"

record create_args =
  arg_package_id :: string
  arg_discount_fixed :: decimal
  arg_discount_percent :: decimal
  arg_apply_sst :: bool
  arg_template_id :: "string option"
  arg_voucher_code :: "string option"
  arg_agent_markup :: decimal
  arg_customer_name :: "string option"
  arg_customer_phone :: "string option"
  arg_customer_address :: "string option"
  arg_epp_fee_amount :: "decimal option"
  arg_epp_fee_description :: "string option"
  arg_created_by :: "int option"

record customer_snapshot =
  snap_customer_id :: "int option"
  snap_name :: string
  snap_phone :: "string option"
  snap_address :: "string option"
  snap_email :: "string option"

text \<open>
  Step 2: the customer is looked up by name and created when there is none;
  \<^verbatim>\<open>db.flush()\<close> inserts the new row, which the database may refuse.
\<close>

definition handle_customer ::
  "env \<Rightarrow> session \<Rightarrow> create_args \<Rightarrow> error + customer_snapshot \<times> session" where
  "handle_customer e s a =
     (case arg_customer_name a of
        None \<Rightarrow>
          Inr (\<lparr>snap_customer_id = None, snap_name = ''Sample Quotation'',
                snap_phone = arg_customer_phone a, snap_address = arg_customer_address a,
                snap_email = None\<rparr>, s)
      | Some customer_name \<Rightarrow>
          if customer_name = [] then
            Inr (\<lparr>snap_customer_id = None, snap_name = ''Sample Quotation'',
                  snap_phone = arg_customer_phone a, snap_address = arg_customer_address a,
                  snap_email = None\<rparr>, s)
          else
            (case find (\<lambda>c. cust_name c = customer_name) (customers (working s)) of
               Some c \<Rightarrow>
                 Inr (\<lparr>snap_customer_id = Some (cust_id c), snap_name = cust_name c,
                       snap_phone = cust_phone c, snap_address = cust_address c,
                       snap_email = cust_email c\<rparr>, s)
             | None \<Rightarrow>
                 (let c = \<lparr>cust_id = new_customer_pk e,
                           cust_customer_id = ''cust_'' @ customer_token e,
                           cust_name = customer_name,
                           cust_phone = arg_customer_phone a,
                           cust_email = None,
                           cust_address = arg_customer_address a,
                           cust_created_by = arg_created_by a\<rparr>
                  in (case insert_customer_error (working s) c of
                        Some err \<Rightarrow> Inl err
                      | None \<Rightarrow>
                          Inr (\<lparr>snap_customer_id = Some (cust_id c), snap_name = cust_name c,
                                snap_phone = cust_phone c, snap_address = cust_address c,
                                snap_email = cust_email c\<rparr>,
                               s\<lparr>working :=
                                   (working s)\<lparr>customers := customers (working s) @ [c]\<rparr>\<rparr>)))))"

text \<open>
  Step 3: the amount of the voucher. \<^verbatim>\<open>package.price * ...\<close> raises a
  \<^verbatim>\<open>TypeError\<close> when the price of the package is NULL.
\<close>

definition find_voucher :: "tables \<Rightarrow> string \<Rightarrow> voucher option" where
  "find_voucher db code =
     find (\<lambda>v. vch_voucher_code v = Some code \<and> vch_active v = Some True) (vouchers db)"

definition voucher_amount_of :: "package \<Rightarrow> voucher \<Rightarrow> error + decimal" where
  "voucher_amount_of package v =
     (if truthy_decimal (vch_discount_amount v) then
        (case vch_discount_amount v of Some d \<Rightarrow> Inr d | None \<Rightarrow> Inr 0)
      else if truthy_int (vch_discount_percent v) then
        (case vch_discount_percent v of
           None \<Rightarrow> Inr 0
         | Some pct \<Rightarrow>
             (case pkg_price package of
                None \<Rightarrow> Inl TypeError
              | Some price \<Rightarrow> Inr (price * (of_int pct / 100))))
      else Inr 0)"

definition handle_voucher :: "tables \<Rightarrow> package \<Rightarrow> string option \<Rightarrow> error + decimal" where
  "handle_voucher db package code_opt =
     (case code_opt of
        None \<Rightarrow> Inr 0
      | Some code \<Rightarrow>
          if code = [] then Inr 0
          else (case find_voucher db code of
                  None \<Rightarrow> Inr 0
                | Some v \<Rightarrow> voucher_amount_of package v))"

text \<open>Step 4: the template and the tax rate.\<close>

definition resolve_template_id :: "tables \<Rightarrow> string option \<Rightarrow> string option" where
  "resolve_template_id db tid =
     (if \<not> truthy_str tid then
        (case find (\<lambda>t. tmpl_is_default t = Some True \<and> tmpl_active t = Some True) (templates db) of
           Some default_template \<Rightarrow> Some (tmpl_bubble_id default_template)
         | None \<Rightarrow> tid)
      else tid)"

definition resolve_sst_rate :: "invoice_settings \<Rightarrow> tables \<Rightarrow> bool \<Rightarrow> string option \<Rightarrow> decimal" where
  "resolve_sst_rate cfg db apply_sst tid =
     (if apply_sst then
        (case tid of
           None \<Rightarrow> DEFAULT_SST_RATE cfg
         | Some t \<Rightarrow>
             if t = [] then DEFAULT_SST_RATE cfg
             else (case find (\<lambda>tm. tmpl_bubble_id tm = t) (templates db) of
                     Some template \<Rightarrow>
                       if \<not> truthy_bool (tmpl_apply_sst template) then 0 else DEFAULT_SST_RATE cfg
                   | None \<Rightarrow> DEFAULT_SST_RATE cfg))
      else 0)"

text \<open>
  Step 5: the expiry of the share link,
  \<^verbatim>\<open>datetime.now(timezone.utc) + timedelta(days=...)\<close>. A \<^verbatim>\<open>timedelta\<close> holds at
  most 999999999 days and a \<^verbatim>\<open>datetime\<close> the years 1 to 9999; beyond, Python raises
  an \<^verbatim>\<open>OverflowError\<close>.
\<close>

definition microseconds_per_day :: int where
  "microseconds_per_day = 86400000000"

definition datetime_min :: datetime where
  "datetime_min = - 62135596800000000"

definition datetime_max :: datetime where
  "datetime_max = 253402300799999999"

definition share_expiry :: "invoice_settings \<Rightarrow> env \<Rightarrow> error + datetime" where
  "share_expiry cfg e =
     (if \<bar>SHARE_LINK_EXPIRY_DAYS cfg\<bar> > 999999999 then Inl OverflowError
      else (let expires = now e + SHARE_LINK_EXPIRY_DAYS cfg * microseconds_per_day
            in if expires < datetime_min \<or> datetime_max < expires then Inl OverflowError
               else Inr expires))"

text \<open>
  Step 5: the invoice row, before its totals are calculated. The columns the code does
  not set are shown as the \<^verbatim>\<open>INSERT\<close> fills them: the primary key, the defaults of
  the columns and the two time stamps of the database.
\<close>

definition new_invoice ::
  "invoice_settings \<Rightarrow> env \<Rightarrow> tables \<Rightarrow> create_args \<Rightarrow> package \<Rightarrow> customer_snapshot
     \<Rightarrow> decimal \<Rightarrow> string option \<Rightarrow> decimal \<Rightarrow> datetime \<Rightarrow> invoice_new" where
  "new_invoice cfg e db a package snap voucher_amt tid rate expires =
     \<lparr>row_id = new_invoice_pk e,
      bubble_id = ''inv_'' @ invoice_token e,
      template_id = tid,
      customer_id = snap_customer_id snap,
      customer_name_snapshot = snap_name snap,
      customer_address_snapshot = snap_address snap,
      customer_phone_snapshot = snap_phone snap,
      customer_email_snapshot = snap_email snap,
      agent_id = None,
      agent_name_snapshot = None,
      package_id = Some (arg_package_id a),
      package_name_snapshot = pkg_name package,
      invoice_number = generate_invoice_number cfg db,
      invoice_date = today e,
      due_date = None,
      subtotal = 0,
      agent_markup = arg_agent_markup a,
      sst_rate = rate,
      sst_amount = 0,
      discount_amount = 0,
      discount_fixed = arg_discount_fixed a,
      discount_percent = arg_discount_percent a,
      voucher_code = arg_voucher_code a,
      voucher_amount = voucher_amt,
      total_amount = 0,
      status = ''draft'',
      paid_amount = Some 0,
      internal_notes = None,
      customer_notes = None,
      share_token = Some (share_token_urlsafe e),
      share_enabled = Some True,
      share_expires_at = Some expires,
      share_access_count = Some 0,
      linked_old_invoice = None,
      migration_status = Some ''new'',
      created_by = arg_created_by a,
      created_at = Some (db_now e),
      updated_at = Some (db_now e),
      sent_at = None,
      viewed_at = None,
      paid_at = None\<rparr>"

text \<open>
  Step 6: the line items, in the order the source adds them. Every item is built with
  \<^verbatim>\<open>invoice=invoice\<close>, that is with the foreign key of the new invoice. The items
  stay pending until the commit.
\<close>

definition line_item ::
  "env \<Rightarrow> nat \<Rightarrow> invoice_new \<Rightarrow> string \<Rightarrow> decimal \<Rightarrow> string \<Rightarrow> int \<Rightarrow> invoice_new_item" where
  "line_item e k invoice description price ty sort_order =
     \<lparr>item_bubble_id = ''item_'' @ item_tokens e k,
      item_invoice_id = Some (bubble_id invoice),
      item_description = description,
      item_qty = 1,
      item_unit_price = price,
      item_total_price = price,
      item_type = ty,
      item_sort_order = sort_order\<rparr>"

definition package_description :: "package \<Rightarrow> string" where
  "package_description package =
     (case pkg_invoice_desc package of
        Some d \<Rightarrow> if d \<noteq> [] then d
                  else (case pkg_name package of
                          Some n \<Rightarrow> if n \<noteq> [] then n else ''Package Item''
                        | None \<Rightarrow> ''Package Item'')
      | None \<Rightarrow> (case pkg_name package of
                   Some n \<Rightarrow> if n \<noteq> [] then n else ''Package Item''
                 | None \<Rightarrow> ''Package Item''))"

definition price_or_zero :: "package \<Rightarrow> decimal" where
  "price_or_zero package =
     (case pkg_price package of None \<Rightarrow> 0 | Some price \<Rightarrow> if price \<noteq> 0 then price else 0)"

definition package_item :: "env \<Rightarrow> create_args \<Rightarrow> package \<Rightarrow> invoice_new \<Rightarrow> invoice_new_item" where
  "package_item e a package invoice =
     line_item e 0 invoice (package_description package)
       (price_or_zero package + arg_agent_markup a) ''package'' 0"

text \<open>
  6b, the fixed discount: the items so far and the next \<^verbatim>\<open>discount_sort_order\<close>.
\<close>

definition add_fixed_discount ::
  "env \<Rightarrow> create_args \<Rightarrow> invoice_new \<Rightarrow> invoice_new_item list \<Rightarrow> invoice_new_item list \<times> int" where
  "add_fixed_discount e a invoice its =
     (if arg_discount_fixed a \<noteq> 0 \<and> arg_discount_fixed a > 0 then
        (its @ [line_item e (length its) invoice
                  (''Discount (RM '' @ str_decimal e (arg_discount_fixed a) @ '')'')
                  (- arg_discount_fixed a) ''discount'' 100],
         100 + 1)
      else (its, 100))"

text \<open>
  6b, the percent discount: \<^verbatim>\<open>package.price * (discount_percent / Decimal(100))\<close>
  raises a \<^verbatim>\<open>TypeError\<close> when the price is NULL.
\<close>

definition add_percent_discount ::
  "env \<Rightarrow> create_args \<Rightarrow> package \<Rightarrow> invoice_new \<Rightarrow> invoice_new_item list \<times> int
     \<Rightarrow> error + invoice_new_item list" where
  "add_percent_discount e a package invoice st =
     (case st of (its, discount_sort_order) \<Rightarrow>
        if arg_discount_percent a \<noteq> 0 \<and> arg_discount_percent a > 0 then
          (case pkg_price package of
             None \<Rightarrow> Inl TypeError
           | Some price \<Rightarrow>
               Inr (its @ [line_item e (length its) invoice
                             (''Discount ('' @ str_decimal e (arg_discount_percent a) @ ''%)'')
                             (- (price * (arg_discount_percent a / 100))) ''discount''
                             discount_sort_order]))
        else Inr its)"

definition add_voucher_item ::
  "env \<Rightarrow> create_args \<Rightarrow> decimal \<Rightarrow> invoice_new \<Rightarrow> invoice_new_item list \<Rightarrow> invoice_new_item list" where
  "add_voucher_item e a voucher_amt invoice its =
     (case arg_voucher_code a of
        None \<Rightarrow> its
      | Some code \<Rightarrow>
          if code \<noteq> [] \<and> voucher_amt > 0 then
            its @ [line_item e (length its) invoice (''Voucher ('' @ code @ '')'')
                     (- voucher_amt) ''voucher'' 101]
          else its)"

definition add_epp_fee_item ::
  "env \<Rightarrow> create_args \<Rightarrow> invoice_new \<Rightarrow> invoice_new_item list \<Rightarrow> invoice_new_item list" where
  "add_epp_fee_item e a invoice its =
     (case arg_epp_fee_amount a of
        None \<Rightarrow> its
      | Some fee \<Rightarrow>
          if fee \<noteq> 0 \<and> fee > 0 \<and> truthy_str (arg_epp_fee_description a) then
            (case arg_epp_fee_description a of
               None \<Rightarrow> its
             | Some d \<Rightarrow>
                 its @ [line_item e (length its) invoice (''Bank Processing Fee ('' @ d @ '')'')
                          fee ''epp_fee'' 200])
          else its)"

definition add_invoice :: "invoice_new \<Rightarrow> session \<Rightarrow> session" where
  "add_invoice invoice s = s\<lparr>working := (working s)\<lparr>invoices := invoices (working s) @ [invoice]\<rparr>\<rparr>"

text \<open>
  The tables as the session sees them while the items \<open>its\<close> are pending: the
  relationship \<^verbatim>\<open>invoice.items\<close> holds the rows of the table and, after them, the
  pending items.
\<close>

definition with_pending :: "tables \<Rightarrow> invoice_new_item list \<Rightarrow> tables" where
  "with_pending db its = db\<lparr>items := items db @ its\<rparr>"

text \<open>
  Step 7 assigns the totals to the invoice object added in step 5, which is the last
  row of the table in the open transaction.
\<close>

definition set_added_invoice :: "invoice_new \<Rightarrow> session \<Rightarrow> session" where
  "set_added_invoice invoice s =
     s\<lparr>working := (working s)\<lparr>invoices := butlast (invoices (working s)) @ [invoice]\<rparr>\<rparr>"

text \<open>
  \<^verbatim>\<open>create_on_the_fly\<close> up to and including the call of
  \<^verbatim>\<open>_calculate_invoice_totals\<close> (line 296): the invoice with the totals Python
  assigned and the pending line items, or the exception raised, and the session at
  that point. A Python exception leaves the transaction open and uncommitted; a flush
  the database refuses rolls it back.
\<close>

definition create_uncommitted ::
  "invoice_settings \<Rightarrow> env \<Rightarrow> session \<Rightarrow> create_args
     \<Rightarrow> (error + invoice_new \<times> invoice_new_item list) \<times> session" where
  "create_uncommitted cfg e s a =
     (case find (\<lambda>p. pkg_bubble_id p = arg_package_id a) (packages (working s)) of
        None \<Rightarrow> (Inl (ValueError (''Package not found: '' @ arg_package_id a)), s)
      | Some package \<Rightarrow>
          (case handle_customer e s a of
             Inl err \<Rightarrow> (Inl err, rollback s)
           | Inr (snap, s1) \<Rightarrow>
               (case handle_voucher (working s1) package (arg_voucher_code a) of
                  Inl err \<Rightarrow> (Inl err, s1)
                | Inr voucher_amt \<Rightarrow>
                    (let tid = resolve_template_id (working s1) (arg_template_id a);
                         rate = resolve_sst_rate cfg (working s1) (arg_apply_sst a) tid
                     in (case share_expiry cfg e of
                           Inl err \<Rightarrow> (Inl err, s1)
                         | Inr expires \<Rightarrow>
                             (let invoice = new_invoice cfg e (working s1) a package snap
                                              voucher_amt tid rate expires
                              in (case insert_invoice_error (working s1) invoice of
                                    Some err \<Rightarrow> (Inl err, rollback s1)
                                  | None \<Rightarrow>
                                      (let s2 = add_invoice invoice s1;
                                           its0 = [package_item e a package invoice];
                                           st1 = add_fixed_discount e a invoice its0
                                       in (case add_percent_discount e a package invoice st1 of
                                             Inl err \<Rightarrow> (Inl err, s2)
                                           | Inr its2 \<Rightarrow>
                                               (let its3 = add_voucher_item e a voucher_amt invoice its2;
                                                    its4 = add_epp_fee_item e a invoice its3;
                                                    invoice1 = calculate_invoice_totals
                                                                 (with_pending (working s2) its4) invoice
                                                in (Inr (invoice1, its4),
                                                    set_added_invoice invoice1 s2)))))))))))"

text \<open>
  \<^verbatim>\<open>db.commit()\<close> and \<^verbatim>\<open>db.refresh(invoice)\<close> (lines 297 and 298). The commit
  flushes the \<^verbatim>\<open>UPDATE\<close> that writes the totals of the invoice, then the
  \<^verbatim>\<open>INSERT\<close> of each pending item; the \<^verbatim>\<open>UPDATE\<close> sets \<^verbatim>\<open>updated_at\<close> to the
  time of the transaction, which the \<^verbatim>\<open>INSERT\<close> of step 5 has already put there.
  The refresh reads the invoice back, so the call returns the row as the database
  stores it.
\<close>

definition commit_and_refresh ::
  "invoice_new \<Rightarrow> invoice_new_item list \<Rightarrow> session \<Rightarrow> (error + invoice_new) \<times> session" where
  "commit_and_refresh invoice its s =
     (if invoice_overflow invoice then (Inl DataError, rollback s)
      else (case insert_items (working s) its of
              Inl err \<Rightarrow> (Inl err, rollback s)
            | Inr db \<Rightarrow>
                (let db1 = db\<lparr>invoices := butlast (invoices db) @ [stored_invoice invoice]\<rparr>
                 in (Inr (stored_invoice invoice), \<lparr>stored = db1, working = db1\<rparr>))))"

text \<open>
  \<^verbatim>\<open>create_on_the_fly\<close>: the invoice returned, or the exception raised, and the
  session as the call leaves it.
\<close>

definition create_on_the_fly ::
  "invoice_settings \<Rightarrow> env \<Rightarrow> session \<Rightarrow> create_args \<Rightarrow> (error + invoice_new) \<times> session" where
  "create_on_the_fly cfg e s a =
     (case create_uncommitted cfg e s a of
        (Inl err, s1) \<Rightarrow> (Inl err, s1)
      | (Inr (invoice, its), s1) \<Rightarrow> commit_and_refresh invoice its s1)"

section \<open>Share tokens and views\<close>

definition get_by_id :: "session \<Rightarrow> string \<Rightarrow> invoice_new option" where
  "get_by_id s bid = find (\<lambda>i. bubble_id i = bid) (invoices (working s))"

definition get_by_share_token :: "session \<Rightarrow> datetime \<Rightarrow> string \<Rightarrow> invoice_new option" where
  "get_by_share_token s now_utc tok =
     (case find (\<lambda>i. share_token i = Some tok) (invoices (working s)) of
        None \<Rightarrow> None
      | Some invoice \<Rightarrow>
          if truthy_bool (share_enabled invoice) then
            (case share_expires_at invoice of
               None \<Rightarrow> Some invoice
             | Some expires \<Rightarrow> if expires < now_utc then None else Some invoice)
          else None)"

text \<open>
  The object \<^verbatim>\<open>get_by_id\<close> returns is the first row with the identifier; the
  assignments of \<^verbatim>\<open>record_view\<close> change that row.
\<close>

fun update_first :: "('a \<Rightarrow> bool) \<Rightarrow> ('a \<Rightarrow> 'a) \<Rightarrow> 'a list \<Rightarrow> 'a list" where
  "update_first P f [] = []"
| "update_first P f (x # xs) = (if P x then f x # xs else x # update_first P f xs)"

definition assign :: "string \<Rightarrow> (invoice_new \<Rightarrow> invoice_new) \<Rightarrow> session \<Rightarrow> session" where
  "assign bid f s =
     s\<lparr>working := (working s)\<lparr>invoices :=
         update_first (\<lambda>i. bubble_id i = bid) f (invoices (working s))\<rparr>\<rparr>"

text \<open>
  \<^verbatim>\<open>record_view\<close>: the exception raised, if any, and the session as the call leaves
  it. \<open>now_utc\<close> is the clock of Python, \<open>db_time\<close> the time \<^verbatim>\<open>now()\<close> of the
  transaction. \<^verbatim>\<open>invoice.share_access_count += 1\<close> raises a \<^verbatim>\<open>TypeError\<close> when the
  counter is NULL, after \<^verbatim>\<open>viewed_at\<close> has been assigned. The commit flushes one
  \<^verbatim>\<open>UPDATE\<close> of the two columns, which also sets \<^verbatim>\<open>updated_at\<close>
  (\<^verbatim>\<open>onupdate=func.now()\<close>); the database refuses a counter beyond 32 bits.
\<close>

definition record_view :: "session \<Rightarrow> datetime \<Rightarrow> datetime \<Rightarrow> string \<Rightarrow> error option \<times> session" where
  "record_view s now_utc db_time bid =
     (case get_by_id s bid of
        None \<Rightarrow> (None, s)
      | Some invoice \<Rightarrow>
          (let s1 = assign bid (\<lambda>i. i\<lparr>viewed_at := Some now_utc\<rparr>) s
           in (case share_access_count invoice of
                 None \<Rightarrow> (Some TypeError, s1)
               | Some n \<Rightarrow>
                   (let s2 = assign bid (\<lambda>i. i\<lparr>share_access_count := Some (n + 1)\<rparr>) s1
                    in if integer_overflow (n + 1) then (Some DataError, rollback s2)
                       else (None, commit (assign bid (\<lambda>i. i\<lparr>updated_at := Some db_time\<rparr>) s2))))))"

section \<open>The HTTP layer\<close>

text \<open>
  The status code \<^verbatim>\<open>create_invoice_on_the_fly\<close> answers with: its two
  \<^verbatim>\<open>except\<close> clauses around the call of \<^verbatim>\<open>create_on_the_fly\<close>, the first for
  \<^verbatim>\<open>ValueError\<close>, the second for every other exception.
\<close>

definition create_invoice_on_the_fly_status :: "error + invoice_new \<Rightarrow> nat" where
  "create_invoice_on_the_fly_status r =
     (case r of
        Inr invoice \<Rightarrow> 200
      | Inl (ValueError msg) \<Rightarrow> 400
      | Inl TypeError \<Rightarrow> 500
      | Inl OverflowError \<Rightarrow> 500
      | Inl IntegrityError \<Rightarrow> 500
      | Inl DataError \<Rightarrow> 500)"

section \<open>Notions used to state the properties\<close>

text \<open>What a line item shows on the invoice: its type tag, its total and its sort order.\<close>

definition item_summary :: "invoice_new_item \<Rightarrow> string \<times> decimal \<times> int" where
  "item_summary it = (item_type it, item_total_price it, item_sort_order it)"

text \<open>
  The line items a call of \<^verbatim>\<open>create_on_the_fly\<close> adds, as steps 6 to 6d build them.
\<close>

definition built_items ::
  "env \<Rightarrow> create_args \<Rightarrow> package \<Rightarrow> decimal \<Rightarrow> invoice_new \<Rightarrow> invoice_new_item list" where
  "built_items e a package voucher_amt invoice =
     (case add_percent_discount e a package invoice
             (add_fixed_discount e a invoice [package_item e a package invoice]) of
        Inl err \<Rightarrow> []
      | Inr its2 \<Rightarrow> add_epp_fee_item e a invoice (add_voucher_item e a voucher_amt invoice its2))"

text \<open>The line items of a created invoice, by type, total and sort order.\<close>

definition expected_lines :: "create_args \<Rightarrow> package \<Rightarrow> decimal \<Rightarrow> (string \<times> decimal \<times> int) list" where
  "expected_lines a package v =
     [(''package'', price_or_zero package + arg_agent_markup a, 0)]
     @ (if 0 < arg_discount_fixed a then [(''discount'', - arg_discount_fixed a, 100)] else [])
     @ (case pkg_price package of
          None \<Rightarrow> []
        | Some P \<Rightarrow>
            if 0 < arg_discount_percent a
            then [(''discount'', - (P * (arg_discount_percent a / 100)),
                   if 0 < arg_discount_fixed a then 101 else 100)] else [])
     @ (if truthy_str (arg_voucher_code a) \<and> 0 < v then [(''voucher'', - v, 101)] else [])
     @ (case arg_epp_fee_amount a of
          None \<Rightarrow> []
        | Some fee \<Rightarrow> if 0 < fee \<and> truthy_str (arg_epp_fee_description a)
                      then [(''epp_fee'', fee, 200)] else [])"




text \<open>
  The same four values of the invoice a call reached the commit with, as
  \<^verbatim>\<open>_calculate_invoice_totals\<close> left them.
\<close>

definition computed_totals ::
  "(error + invoice_new \<times> invoice_new_item list) \<times> session
     \<Rightarrow> (decimal \<times> decimal \<times> decimal \<times> decimal) option" where
  "computed_totals r =
     (case fst r of
        Inl err \<Rightarrow> None
      | Inr p \<Rightarrow>
          Some (sst_rate (fst p), subtotal (fst p), sst_amount (fst p), total_amount (fst p)))"




text \<open>
  The validity of a share link in the words of the specification: sharing is enabled
  and the expiry, when there is one, is in the future.
\<close>

definition share_valid_as_claimed :: "datetime \<Rightarrow> invoice_new \<Rightarrow> bool" where
  "share_valid_as_claimed now_utc invoice =
     (share_enabled invoice = Some True \<and>
      (case share_expires_at invoice of None \<Rightarrow> True | Some expires \<Rightarrow> now_utc < expires))"

text \<open>
  \<^verbatim>\<open>record_view\<close> called once for each of the given pairs of times (the clock of
  Python and the time of the transaction), in turn, until a call raises.
\<close>

fun record_views ::
  "session \<Rightarrow> (datetime \<times> datetime) list \<Rightarrow> string \<Rightarrow> error option \<times> session" where
  "record_views s [] bid = (None, s)"
| "record_views s (t # ts) bid =
     (case record_view s (fst t) (snd t) bid of
        (None, s1) \<Rightarrow> record_views s1 ts bid
      | (Some err, s1) \<Rightarrow> (Some err, s1))"

text \<open>
  The value of a string of decimal digits, and the invoice number the settings
  prescribe for a natural number: the prefix, a hyphen and the zero-padded number.
\<close>

fun digits_value :: "string \<Rightarrow> nat" where
  "digits_value [] = 0"
| "digits_value (c # cs) = digit_value c * 10 ^ length cs + digits_value cs"

definition formatted_number :: "invoice_settings \<Rightarrow> nat \<Rightarrow> string" where
  "formatted_number cfg n =
     INVOICE_NUMBER_PREFIX cfg @ ''-'' @ zfill (py_str (int n)) (INVOICE_NUMBER_LENGTH cfg)"

section \<open>Concrete data\<close>

text \<open>
  The settings \<^verbatim>\<open>config.py\<close> declares, and a small database: one package priced
  1000 and one active voucher that has both a flat amount of 100 and a percentage of 20.
\<close>

definition default_settings :: invoice_settings where
  "default_settings =
     \<lparr>INVOICE_NUMBER_PREFIX = ''INV'', INVOICE_NUMBER_LENGTH = 6,
      DEFAULT_SST_RATE = 8, SHARE_LINK_EXPIRY_DAYS = 7\<rparr>"

definition example_env :: env where
  "example_env =
     \<lparr>now = 1769472000000000, today = ''2026-01-27'', db_now = 1769471999990000,
      customer_token = ''0a1b2c3d'', new_customer_pk = 1,
      invoice_token = ''00112233445566ff'', new_invoice_pk = 1,
      share_token_urlsafe = ''Zm9vYmFyYmF6cXV4'',
      item_tokens = (\<lambda>k. replicate (Suc k) CHR ''e''),
      str_decimal = (\<lambda>d. ''?'')\<rparr>"

definition example_package :: package where
  "example_package =
     \<lparr>pkg_bubble_id = ''pkg_1'', pkg_name = Some ''Solar 5kW'',
      pkg_price = Some 1000, pkg_invoice_desc = None\<rparr>"

definition example_voucher :: voucher where
  "example_voucher =
     \<lparr>vch_voucher_code = Some ''SAVE100'', vch_discount_amount = Some 100,
      vch_discount_percent = Some 20, vch_active = Some True\<rparr>"

definition example_tables :: tables where
  "example_tables =
     \<lparr>users = [], packages = [example_package], customers = [], vouchers = [example_voucher],
      templates = [], invoices = [], items = []\<rparr>"

definition example_session :: session where
  "example_session = \<lparr>stored = example_tables, working = example_tables\<rparr>"

definition example_args :: create_args where
  "example_args =
     \<lparr>arg_package_id = ''pkg_1'', arg_discount_fixed = 0, arg_discount_percent = 0,
      arg_apply_sst = True, arg_template_id = None, arg_voucher_code = Some ''SAVE100'',
      arg_agent_markup = 50, arg_customer_name = None, arg_customer_phone = None,
      arg_customer_address = None, arg_epp_fee_amount = None,
      arg_epp_fee_description = None, arg_created_by = None\<rparr>"

definition example_snapshot :: customer_snapshot where
  "example_snapshot =
     \<lparr>snap_customer_id = None, snap_name = ''Sample Quotation'', snap_phone = None,
      snap_address = None, snap_email = None\<rparr>"

text \<open>An invoice at the tax rate 8 whose two line items sum to \<open>- 100\<close>.\<close>

definition example_invoice :: invoice_new where
  "example_invoice =
     new_invoice default_settings example_env example_tables example_args example_package
       example_snapshot 0 None 8 1770076800000000"

definition overdiscounted_tables :: tables where
  "overdiscounted_tables =
     example_tables\<lparr>items :=
       [line_item example_env 0 example_invoice ''Solar 5kW'' 100 ''package'' 0,
        line_item example_env 1 example_invoice ''Discount (RM 200)'' (- 200) ''discount'' 100]\<rparr>"

text \<open>A fixed discount of 1200 on the package priced 1000, with the tax requested.\<close>

definition overdiscount_args :: create_args where
  "overdiscount_args =
     example_args\<lparr>arg_discount_fixed := 1200, arg_voucher_code := None, arg_agent_markup := 0\<rparr>"

text \<open>
  A percent discount of 1000 on the package priced 1000, that is a discount of 10000: the
  column \<^verbatim>\<open>discount_percent\<close> is a \<^verbatim>\<open>NUMERIC(5, 2)\<close>.
\<close>

definition excess_percent_args :: create_args where
  "excess_percent_args =
     example_args\<lparr>arg_discount_percent := 1000, arg_voucher_code := None, arg_agent_markup := 0\<rparr>"

text \<open>
  A package priced 1000.04 and a percent discount of 15 with the tax requested: the
  discount is 150.006 and the subtotal 850.034.
\<close>

definition cents_package :: package where
  "cents_package =
     \<lparr>pkg_bubble_id = ''pkg_2'', pkg_name = Some ''Solar 8kW'',
      pkg_price = Some (100004 / 100), pkg_invoice_desc = None\<rparr>"

definition cents_session :: session where
  "cents_session =
     \<lparr>stored = example_tables\<lparr>packages := [example_package, cents_package]\<rparr>,
      working = example_tables\<lparr>packages := [example_package, cents_package]\<rparr>\<rparr>"

definition cents_args :: create_args where
  "cents_args =
     example_args\<lparr>arg_package_id := ''pkg_2'', arg_discount_percent := 15,
                  arg_voucher_code := None, arg_agent_markup := 0\<rparr>"



definition both_discounts_args :: create_args where
  "both_discounts_args =
     example_args\<lparr>arg_discount_fixed := 50, arg_discount_percent := 10, arg_agent_markup := 0\<rparr>"

text \<open>
  A session with one shared invoice, whose link expires at the time 1000, the same with
  the access counter of the invoice at the greatest 32-bit integer, and the same with
  the counter NULL.
\<close>

definition shared_invoice :: invoice_new where
  "shared_invoice = example_invoice\<lparr>share_token := Some ''s3cr3t'', share_expires_at := Some 1000\<rparr>"

definition shared_session :: session where
  "shared_session =
     \<lparr>stored = example_tables\<lparr>invoices := [shared_invoice]\<rparr>,
      working = example_tables\<lparr>invoices := [shared_invoice]\<rparr>\<rparr>"

definition maxed_session :: session where
  "maxed_session =
     \<lparr>stored = example_tables\<lparr>invoices := [shared_invoice\<lparr>share_access_count := Some 2147483647\<rparr>]\<rparr>,
      working = example_tables\<lparr>invoices := [shared_invoice\<lparr>share_access_count := Some 2147483647\<rparr>]\<rparr>\<rparr>"

definition uncounted_session :: session where
  "uncounted_session =
     \<lparr>stored = example_tables\<lparr>invoices := [shared_invoice\<lparr>share_access_count := None\<rparr>]\<rparr>,
      working = example_tables\<lparr>invoices := [shared_invoice\<lparr>share_access_count := None\<rparr>]\<rparr>\<rparr>"

text \<open>
  Tables whose invoices carry the given numbers, a session on the table that holds the
  invoice \<^verbatim>\<open>INV-999999\<close>, and the environments of two further calls (other random
  identifiers).
\<close>

definition numbered_invoice :: "string \<Rightarrow> invoice_new" where
  "numbered_invoice n = example_invoice\<lparr>invoice_number := n\<rparr>"

definition tables_numbered :: "string list \<Rightarrow> tables" where
  "tables_numbered ns = example_tables\<lparr>invoices := map numbered_invoice ns\<rparr>"

definition million_session :: session where
  "million_session =
     \<lparr>stored = tables_numbered [''INV-999999''], working = tables_numbered [''INV-999999'']\<rparr>"

definition next_env :: env where
  "next_env =
     example_env\<lparr>invoice_token := ''8899aabbccddeeff'', new_invoice_pk := 2,
                 share_token_urlsafe := ''cXV1eGJhemJhcmZvbw''\<rparr>"

definition third_env :: env where
  "third_env =
     example_env\<lparr>invoice_token := ''0123456789abcdef'', new_invoice_pk := 3,
                 share_token_urlsafe := ''dGhpcmR0b2tlbjEyMw'',
                 item_tokens := (\<lambda>k. replicate (Suc k) CHR ''f'')\<rparr>"

section \<open>Properties of the column types\<close>

lemma floor_rat_numeral: "\<lfloor>(numeral a :: rat) / numeral b\<rfloor> = numeral a div numeral b"
  using floor_divide_of_int_eq[of "numeral a" "numeral b", where ?'a = rat] by simp

lemma floor_rat_one: "\<lfloor>(1 :: rat) / numeral b\<rfloor> = 1 div numeral b"
  using floor_divide_of_int_eq[of 1 "numeral b", where ?'a = rat] by simp

lemma round_half_away_zero: "round_half_away 0 = 0"
  by (simp add: round_half_away_def floor_rat_one)



lemma round_half_away_of_int: "round_half_away (of_int n) = n"
proof -
  have "\<lfloor>(of_int n :: rat) + 1 / 2\<rfloor> = n" by (simp add: floor_unique)
  moreover have "\<lfloor>- (of_int n :: rat) + 1 / 2\<rfloor> = - n"
    using floor_unique[of "- n" "- (of_int n :: rat) + 1 / 2"] by simp
  ultimately show ?thesis by (simp add: round_half_away_def)
qed

lemma numeric_round_zero: "numeric_round k 0 = 0"
  by (simp add: numeric_round_def round_half_away_zero)




text \<open>A value that has no more decimal places than the scale of the column is stored as it is.\<close>

lemma numeric_round_exact: "numeric_round k (of_int n / 10 ^ k) = of_int n / 10 ^ k"
  by (simp add: numeric_round_def round_half_away_of_int)

lemma stored_item_simps [simp]:
  "item_bubble_id (stored_item it) = item_bubble_id it"
  "item_invoice_id (stored_item it) = item_invoice_id it"
  "item_description (stored_item it) = item_description it"
  "item_type (stored_item it) = item_type it"
  "item_sort_order (stored_item it) = item_sort_order it"
  "item_total_price (stored_item it) = numeric_round 2 (item_total_price it)"
  "item_unit_price (stored_item it) = numeric_round 2 (item_unit_price it)"
  by (simp_all add: stored_item_def)

lemma stored_invoice_simps [simp]:
  "bubble_id (stored_invoice i) = bubble_id i"
  "invoice_number (stored_invoice i) = invoice_number i"
  "share_token (stored_invoice i) = share_token i"
  "subtotal (stored_invoice i) = numeric_round 2 (subtotal i)"
  "sst_rate (stored_invoice i) = numeric_round 2 (sst_rate i)"
  "sst_amount (stored_invoice i) = numeric_round 2 (sst_amount i)"
  "discount_amount (stored_invoice i) = numeric_round 2 (discount_amount i)"
  "voucher_amount (stored_invoice i) = numeric_round 2 (voucher_amount i)"
  "total_amount (stored_invoice i) = numeric_round 2 (total_amount i)"
  by (simp_all add: stored_invoice_def)

lemma insert_items_Inr:
  "insert_items db its = Inr db1 \<Longrightarrow> db1 = db\<lparr>items := items db @ map stored_item its\<rparr>"
proof (induction its arbitrary: db)
  case Nil
  then show ?case by simp
next
  case (Cons it its)
  from Cons.prems have n: "insert_item_error db it = None"
    and r: "insert_items (db\<lparr>items := items db @ [stored_item it]\<rparr>) its = Inr db1"
    by (simp_all split: option.splits)
  from Cons.IH[OF r] show ?case by simp
qed



section \<open>Properties of the totals\<close>

lemma calculate_subtotal:
  "subtotal (calculate_invoice_totals db invoice) =
     sum_list (map item_total_price (invoice_items db invoice))"
  by (simp add: calculate_invoice_totals_def Let_def invoice_items_def query_items_def)

lemma calculate_sst_amount:
  "sst_amount (calculate_invoice_totals db invoice) =
     (if subtotal (calculate_invoice_totals db invoice) > 0
      then subtotal (calculate_invoice_totals db invoice) * (sst_rate invoice / 100) else 0)"
  by (simp add: calculate_invoice_totals_def Let_def)

lemma calculate_total_amount:
  "total_amount (calculate_invoice_totals db invoice) =
     subtotal (calculate_invoice_totals db invoice) + sst_amount (calculate_invoice_totals db invoice)"
  by (simp add: calculate_invoice_totals_def Let_def)

lemma calculate_keeps [simp]:
  "sst_rate (calculate_invoice_totals db invoice) = sst_rate invoice"
  "bubble_id (calculate_invoice_totals db invoice) = bubble_id invoice"
  "invoice_number (calculate_invoice_totals db invoice) = invoice_number invoice"
  by (simp_all add: calculate_invoice_totals_def Let_def)

lemma calculate_items_cong:
  "items db = items db' \<Longrightarrow> calculate_invoice_totals db i = calculate_invoice_totals db' i"
proof -
  assume h: "items db = items db'"
  have a: "invoice_items db i = invoice_items db' i" by (simp add: invoice_items_def h)
  have b: "query_items db i = query_items db' i" by (simp add: query_items_def h)
  show ?thesis by (simp only: calculate_invoice_totals_def a b)
qed

section \<open>Properties of the creation of an invoice\<close>

subsection \<open>The steps\<close>

lemma handle_customer_tables:
  assumes "handle_customer e s a = Inr (snap, s1)"
  shows "items (working s1) = items (working s)"
    and "packages (working s1) = packages (working s)"
    and "vouchers (working s1) = vouchers (working s)"
    and "templates (working s1) = templates (working s)"
    and "invoices (working s1) = invoices (working s)"
    and "users (working s1) = users (working s)"
    and "stored s1 = stored s"
  using assms by (auto simp: handle_customer_def Let_def split: option.splits if_splits)





lemma handle_voucher_cong:
  "vouchers db = vouchers db' \<Longrightarrow> handle_voucher db p c = handle_voucher db' p c"
  by (simp add: handle_voucher_def find_voucher_def split: option.splits)

lemma resolve_template_id_cong:
  "templates db = templates db' \<Longrightarrow> resolve_template_id db t = resolve_template_id db' t"
  by (simp add: resolve_template_id_def)

lemma resolve_sst_rate_cong:
  "templates db = templates db' \<Longrightarrow> resolve_sst_rate cfg db b t = resolve_sst_rate cfg db' b t"
  by (simp add: resolve_sst_rate_def split: option.splits)

lemma generate_invoice_number_cong:
  "invoices db = invoices db' \<Longrightarrow> generate_invoice_number cfg db = generate_invoice_number cfg db'"
  by (simp add: generate_invoice_number_def)

lemma new_invoice_cong:
  "invoices db = invoices db' \<Longrightarrow>
   new_invoice cfg e db a package snap v tid rate t = new_invoice cfg e db' a package snap v tid rate t"
  by (simp add: new_invoice_def generate_invoice_number_def)

lemma handle_voucher_price:
  "pkg_price package = Some P \<Longrightarrow> \<not> isl (handle_voucher db package c)"
  by (simp add: handle_voucher_def voucher_amount_of_def split: option.splits)

lemma handle_voucher_price_Inr:
  assumes "pkg_price package = Some P"
  obtains v where "handle_voucher db package c = Inr v"
  using handle_voucher_price[OF assms, of db c]
  by (cases "handle_voucher db package c") simp_all



lemma line_item_fk [simp]:
  "item_invoice_id (line_item e k invoice d p t so) = Some (bubble_id invoice)"
  by (simp add: line_item_def)

lemma summary_line_item [simp]:
  "item_summary (line_item e k invoice d p t so) = (t, p, so)"
  by (simp add: line_item_def item_summary_def)

lemma fixed_fk:
  "\<forall>it \<in> set its. item_invoice_id it = Some b \<Longrightarrow> b = bubble_id invoice \<Longrightarrow>
   \<forall>it \<in> set (fst (add_fixed_discount e a invoice its)). item_invoice_id it = Some b"
  by (simp add: add_fixed_discount_def)

lemma percent_fk:
  "\<forall>it \<in> set (fst st). item_invoice_id it = Some b \<Longrightarrow> b = bubble_id invoice \<Longrightarrow>
   add_percent_discount e a package invoice st = Inr its \<Longrightarrow>
   \<forall>it \<in> set its. item_invoice_id it = Some b"
  by (cases st) (auto simp: add_percent_discount_def split: if_splits option.splits)

lemma voucher_fk:
  "\<forall>it \<in> set its. item_invoice_id it = Some b \<Longrightarrow> b = bubble_id invoice \<Longrightarrow>
   \<forall>it \<in> set (add_voucher_item e a v invoice its). item_invoice_id it = Some b"
  by (simp add: add_voucher_item_def split: option.splits)

lemma fee_fk:
  "\<forall>it \<in> set its. item_invoice_id it = Some b \<Longrightarrow> b = bubble_id invoice \<Longrightarrow>
   \<forall>it \<in> set (add_epp_fee_item e a invoice its). item_invoice_id it = Some b"
  by (simp add: add_epp_fee_item_def split: option.splits)

lemma built_items_fk:
  "\<forall>it \<in> set (built_items e a package v invoice). item_invoice_id it = Some (bubble_id invoice)"
proof (cases "add_percent_discount e a package invoice
             (add_fixed_discount e a invoice [package_item e a package invoice])")
  case (Inl err)
  then show ?thesis by (simp add: built_items_def)
next
  case (Inr its2)
  have "\<forall>it \<in> set [package_item e a package invoice]. item_invoice_id it = Some (bubble_id invoice)"
    by (simp add: package_item_def)
  from fixed_fk[OF this refl] have
    "\<forall>it \<in> set (fst (add_fixed_discount e a invoice [package_item e a package invoice])).
        item_invoice_id it = Some (bubble_id invoice)" .
  from percent_fk[OF this refl Inr] have "\<forall>it \<in> set its2. item_invoice_id it = Some (bubble_id invoice)" .
  from fee_fk[OF voucher_fk[OF this refl] refl] show ?thesis
    using Inr by (simp add: built_items_def)
qed

lemma fixed_summary:
  "map item_summary (fst (add_fixed_discount e a invoice its)) =
     map item_summary its
     @ (if 0 < arg_discount_fixed a then [(''discount'', - arg_discount_fixed a, 100)] else [])"
  "snd (add_fixed_discount e a invoice its) = (if 0 < arg_discount_fixed a then 101 else 100)"
  by (simp_all add: add_fixed_discount_def)

lemma percent_summary:
  assumes "\<not> (0 < arg_discount_percent a \<and> pkg_price package = None)"
  shows "\<exists>its2. add_percent_discount e a package invoice st = Inr its2 \<and>
     map item_summary its2 = map item_summary (fst st)
       @ (case pkg_price package of
            None \<Rightarrow> []
          | Some P \<Rightarrow>
              if 0 < arg_discount_percent a
              then [(''discount'', - (P * (arg_discount_percent a / 100)), snd st)] else [])"
  using assms by (cases st) (auto simp: add_percent_discount_def split: option.splits)

lemma voucher_summary:
  "map item_summary (add_voucher_item e a v invoice its) =
     map item_summary its
     @ (if truthy_str (arg_voucher_code a) \<and> 0 < v then [(''voucher'', - v, 101)] else [])"
  by (simp add: add_voucher_item_def truthy_str_def split: option.splits)

lemma fee_summary:
  "map item_summary (add_epp_fee_item e a invoice its) =
     map item_summary its
     @ (case arg_epp_fee_amount a of
          None \<Rightarrow> []
        | Some fee \<Rightarrow> if 0 < fee \<and> truthy_str (arg_epp_fee_description a)
                      then [(''epp_fee'', fee, 200)] else [])"
  by (simp add: add_epp_fee_item_def truthy_str_def split: option.splits)

lemma package_summary:
  "item_summary (package_item e a package invoice) =
     (''package'', price_or_zero package + arg_agent_markup a, 0)"
  by (simp add: package_item_def)

lemma built_items_summary:
  assumes "\<not> (0 < arg_discount_percent a \<and> pkg_price package = None)"
  shows "map item_summary (built_items e a package v invoice) = expected_lines a package v"
proof -
  let ?st = "add_fixed_discount e a invoice [package_item e a package invoice]"
  obtain its2 where p: "add_percent_discount e a package invoice ?st = Inr its2"
    and s2: "map item_summary its2 = map item_summary (fst ?st)
       @ (case pkg_price package of
            None \<Rightarrow> []
          | Some P \<Rightarrow>
              if 0 < arg_discount_percent a
              then [(''discount'', - (P * (arg_discount_percent a / 100)), snd ?st)] else [])"
    using percent_summary[OF assms] by blast
  have "built_items e a package v invoice =
      add_epp_fee_item e a invoice (add_voucher_item e a v invoice its2)"
    by (simp add: built_items_def p)
  then show ?thesis
    unfolding expected_lines_def
    by (simp only: fee_summary voucher_summary s2 fixed_summary list.map
        package_summary append_assoc append.simps)
qed

lemma percent_Inr:
  "\<not> (0 < arg_discount_percent a \<and> pkg_price package = None) \<Longrightarrow>
   \<exists>its2. add_percent_discount e a package invoice st = Inr its2"
  by (cases st) (auto simp: add_percent_discount_def split: option.splits)

lemma percent_Inl:
  "0 < arg_discount_percent a \<Longrightarrow> pkg_price package = None \<Longrightarrow>
   add_percent_discount e a package invoice st = Inl TypeError"
  by (cases st) (simp add: add_percent_discount_def)


lemma add_invoice_simps [simp]:
  "items (working (add_invoice i s)) = items (working s)"
  "invoices (working (add_invoice i s)) = invoices (working s) @ [i]"
  "packages (working (add_invoice i s)) = packages (working s)"
  "vouchers (working (add_invoice i s)) = vouchers (working s)"
  "templates (working (add_invoice i s)) = templates (working s)"
  "customers (working (add_invoice i s)) = customers (working s)"
  "users (working (add_invoice i s)) = users (working s)"
  "stored (add_invoice i s) = stored s"
  by (simp_all add: add_invoice_def)

lemma set_added_invoice_simps [simp]:
  "items (working (set_added_invoice i s)) = items (working s)"
  "invoices (working (set_added_invoice i s)) = butlast (invoices (working s)) @ [i]"
  "packages (working (set_added_invoice i s)) = packages (working s)"
  "vouchers (working (set_added_invoice i s)) = vouchers (working s)"
  "templates (working (set_added_invoice i s)) = templates (working s)"
  "customers (working (set_added_invoice i s)) = customers (working s)"
  "users (working (set_added_invoice i s)) = users (working s)"
  "stored (set_added_invoice i s) = stored s"
  by (simp_all add: set_added_invoice_def)

lemma with_pending_items [simp]: "items (with_pending db its) = items db @ its"
  by (simp add: with_pending_def)

lemma rollback_simps [simp]:
  "stored (rollback s) = stored s"
  "working (rollback s) = stored s"
  by (simp_all add: rollback_def)

lemma commit_simps [simp]:
  "working (commit s) = working s"
  "stored (commit s) = working s"
  by (simp_all add: commit_def)

subsection \<open>The call up to the commit\<close>

text \<open>
  When every step succeeds, the call reaches the commit with the invoice of step 5, its
  totals calculated over the pending items of steps 6 to 6d.
\<close>

lemma uncommitted_core:
  assumes f: "find (\<lambda>p. pkg_bubble_id p = arg_package_id a) (packages (working s)) = Some package"
    and hc: "handle_customer e s a = Inr (snap, s1)"
    and v: "handle_voucher (working s) package (arg_voucher_code a) = Inr v"
    and ok: "\<not> (0 < arg_discount_percent a \<and> pkg_price package = None)"
    and ex: "share_expiry cfg e = Inr t"
    and i0: "inv0 = new_invoice cfg e (working s) a package snap v
                      (resolve_template_id (working s) (arg_template_id a))
                      (resolve_sst_rate cfg (working s) (arg_apply_sst a)
                         (resolve_template_id (working s) (arg_template_id a))) t"
    and ins: "insert_invoice_error (working s1) inv0 = None"
    and its: "its = built_items e a package v inv0"
    and i1: "iv1 = calculate_invoice_totals (with_pending (working (add_invoice inv0 s1)) its) inv0"
  shows "create_uncommitted cfg e s a = (Inr (iv1, its), set_added_invoice iv1 (add_invoice inv0 s1))"
proof -
  have s1: "vouchers (working s1) = vouchers (working s)"
    "templates (working s1) = templates (working s)" "invoices (working s1) = invoices (working s)"
    using handle_customer_tables[OF hc] by simp_all
  have hv: "handle_voucher (working s1) package (arg_voucher_code a) = Inr v"
    using v handle_voucher_cong[OF s1(1)] by simp
  define tid where "tid = resolve_template_id (working s1) (arg_template_id a)"
  define rate where "rate = resolve_sst_rate cfg (working s1) (arg_apply_sst a) tid"
  have tid: "tid = resolve_template_id (working s) (arg_template_id a)"
    using resolve_template_id_cong[OF s1(2)] by (simp add: tid_def)
  have rate: "rate = resolve_sst_rate cfg (working s) (arg_apply_sst a)
                         (resolve_template_id (working s) (arg_template_id a))"
    using resolve_sst_rate_cong[OF s1(2)] by (simp add: rate_def tid)
  have n: "new_invoice cfg e (working s1) a package snap v tid rate t = inv0"
    using new_invoice_cong[OF s1(3)] by (simp add: i0 tid rate)
  define st1 where "st1 = add_fixed_discount e a inv0 [package_item e a package inv0]"
  obtain its2 where p: "add_percent_discount e a package inv0 st1 = Inr its2"
    using percent_Inr[OF ok] by blast
  have b: "add_epp_fee_item e a inv0 (add_voucher_item e a v inv0 its2) = its"
    using p by (simp add: its built_items_def st1_def)
  show ?thesis
    unfolding create_uncommitted_def
    by (simp only: f hc hv ex option.case prod.case sum.case Let_def
        tid_def[symmetric] rate_def[symmetric] n ins st1_def[symmetric] p b i1[symmetric])
qed

lemma uncommitted_inversion:
  assumes c: "create_uncommitted cfg e s a = (Inr (iv1, its), s3)"
  shows "\<exists>package snap s1 v t inv0.
      find (\<lambda>p. pkg_bubble_id p = arg_package_id a) (packages (working s)) = Some package
    \<and> handle_customer e s a = Inr (snap, s1)
    \<and> handle_voucher (working s) package (arg_voucher_code a) = Inr v
    \<and> \<not> (0 < arg_discount_percent a \<and> pkg_price package = None)
    \<and> share_expiry cfg e = Inr t
    \<and> inv0 = new_invoice cfg e (working s) a package snap v
                      (resolve_template_id (working s) (arg_template_id a))
                      (resolve_sst_rate cfg (working s) (arg_apply_sst a)
                         (resolve_template_id (working s) (arg_template_id a))) t
    \<and> insert_invoice_error (working s1) inv0 = None
    \<and> its = built_items e a package v inv0
    \<and> iv1 = calculate_invoice_totals (with_pending (working (add_invoice inv0 s1)) its) inv0
    \<and> s3 = set_added_invoice iv1 (add_invoice inv0 s1)"
proof (cases "find (\<lambda>p. pkg_bubble_id p = arg_package_id a) (packages (working s))")
  case None
  then show ?thesis using c by (simp add: create_uncommitted_def)
next
  case f: (Some package)
  show ?thesis
  proof (cases "handle_customer e s a")
    case (Inl er)
    then show ?thesis using c f by (simp add: create_uncommitted_def)
  next
    case (Inr r)
    then obtain snap s1 where hc: "handle_customer e s a = Inr (snap, s1)" by (cases r) auto
    have s1: "vouchers (working s1) = vouchers (working s)"
      "templates (working s1) = templates (working s)" "invoices (working s1) = invoices (working s)"
      using handle_customer_tables[OF hc] by simp_all
    show ?thesis
    proof (cases "handle_voucher (working s1) package (arg_voucher_code a)")
      case (Inl er)
      then show ?thesis using c f hc by (simp add: create_uncommitted_def)
    next
      case hv1: (Inr v)
      have hv: "handle_voucher (working s) package (arg_voucher_code a) = Inr v"
        using hv1 handle_voucher_cong[OF s1(1)] by simp
      show ?thesis
      proof (cases "share_expiry cfg e")
        case (Inl er)
        then show ?thesis using c f hc hv1 by (simp add: create_uncommitted_def Let_def)
      next
        case ex: (Inr t)
        define inv0 where "inv0 = new_invoice cfg e (working s) a package snap v
                      (resolve_template_id (working s) (arg_template_id a))
                      (resolve_sst_rate cfg (working s) (arg_apply_sst a)
                         (resolve_template_id (working s) (arg_template_id a))) t"
        have n: "new_invoice cfg e (working s1) a package snap v
                   (resolve_template_id (working s1) (arg_template_id a))
                   (resolve_sst_rate cfg (working s1) (arg_apply_sst a)
                      (resolve_template_id (working s1) (arg_template_id a))) t = inv0"
          unfolding inv0_def
          using resolve_template_id_cong[OF s1(2)] resolve_sst_rate_cong[OF s1(2)]
            new_invoice_cong[OF s1(3)] by simp
        show ?thesis
        proof (cases "insert_invoice_error (working s1) inv0")
          case (Some er)
          then show ?thesis using c f hc hv1 ex n by (simp add: create_uncommitted_def Let_def)
        next
          case ins: None
          have ok: "\<not> (0 < arg_discount_percent a \<and> pkg_price package = None)"
          proof
            assume "0 < arg_discount_percent a \<and> pkg_price package = None"
            then have "\<And>invoice st. add_percent_discount e a package invoice st = Inl TypeError"
              using percent_Inl by blast
            then show False using c f hc hv1 ex n ins
              by (simp add: create_uncommitted_def Let_def)
          qed
          define its0 where "its0 = built_items e a package v inv0"
          define iv0 where
            "iv0 = calculate_invoice_totals (with_pending (working (add_invoice inv0 s1)) its0) inv0"
          from uncommitted_core[OF f hc hv ok ex inv0_def ins its0_def iv0_def] c
          have "iv1 = iv0" "its = its0" "s3 = set_added_invoice iv0 (add_invoice inv0 s1)"
            by simp_all
          then show ?thesis
            using f hc hv ok ex ins inv0_def its0_def iv0_def by blast
        qed
      qed
    qed
  qed
qed

text \<open>What the invoice and the pending items are when the call reaches the commit.\<close>

lemma uncommitted_facts:
  assumes c: "create_uncommitted cfg e s a = (Inr (iv1, its), s3)"
  shows "\<exists>package v.
      find (\<lambda>p. pkg_bubble_id p = arg_package_id a) (packages (working s)) = Some package
    \<and> handle_voucher (working s) package (arg_voucher_code a) = Inr v
    \<and> \<not> (0 < arg_discount_percent a \<and> pkg_price package = None)
    \<and> map item_summary its = expected_lines a package v
    \<and> (\<forall>it \<in> set its. item_invoice_id it = Some (bubble_id iv1))
    \<and> bubble_id iv1 = ''inv_'' @ invoice_token e
    \<and> invoice_number iv1 = generate_invoice_number cfg (working s)
    \<and> sst_rate iv1 = resolve_sst_rate cfg (working s) (arg_apply_sst a)
                         (resolve_template_id (working s) (arg_template_id a))
    \<and> subtotal iv1 =
         sum_list (map item_total_price (invoice_items (with_pending (working s3) its) iv1))
    \<and> sst_amount iv1 = (if 0 < subtotal iv1 then subtotal iv1 * (sst_rate iv1 / 100) else 0)
    \<and> total_amount iv1 = subtotal iv1 + sst_amount iv1
    \<and> items (working s3) = items (working s)
    \<and> invoices (working s3) = invoices (working s) @ [iv1]
    \<and> packages (working s3) = packages (working s)
    \<and> vouchers (working s3) = vouchers (working s)
    \<and> templates (working s3) = templates (working s)
    \<and> stored s3 = stored s"
proof -
  obtain package snap s1 v t inv0 where
    f: "find (\<lambda>p. pkg_bubble_id p = arg_package_id a) (packages (working s)) = Some package"
    and hc: "handle_customer e s a = Inr (snap, s1)"
    and v: "handle_voucher (working s) package (arg_voucher_code a) = Inr v"
    and ok: "\<not> (0 < arg_discount_percent a \<and> pkg_price package = None)"
    and i0: "inv0 = new_invoice cfg e (working s) a package snap v
                      (resolve_template_id (working s) (arg_template_id a))
                      (resolve_sst_rate cfg (working s) (arg_apply_sst a)
                         (resolve_template_id (working s) (arg_template_id a))) t"
    and its: "its = built_items e a package v inv0"
    and i1: "iv1 = calculate_invoice_totals (with_pending (working (add_invoice inv0 s1)) its) inv0"
    and s3: "s3 = set_added_invoice iv1 (add_invoice inv0 s1)"
    using uncommitted_inversion[OF c] by blast
  note s1 = handle_customer_tables[OF hc]
  have b: "bubble_id iv1 = bubble_id inv0" by (simp add: i1)
  have l: "map item_summary its = expected_lines a package v"
    unfolding its by (rule built_items_summary[OF ok])
  have fk: "\<forall>it \<in> set its. item_invoice_id it = Some (bubble_id iv1)"
    unfolding its b by (rule built_items_fk)
  have bi: "bubble_id iv1 = ''inv_'' @ invoice_token e" by (simp add: i1 i0 new_invoice_def)
  have nu: "invoice_number iv1 = generate_invoice_number cfg (working s)"
    by (simp add: i1 i0 new_invoice_def)
  have ra: "sst_rate iv1 = resolve_sst_rate cfg (working s) (arg_apply_sst a)
                         (resolve_template_id (working s) (arg_template_id a))"
    by (simp add: i1 i0 new_invoice_def)
  have it3: "items (with_pending (working s3) its) = items (with_pending (working (add_invoice inv0 s1)) its)"
    by (simp add: s3)
  have "invoice_items (with_pending (working s3) its) iv1
          = invoice_items (with_pending (working (add_invoice inv0 s1)) its) inv0"
    unfolding invoice_items_def it3 b ..
  then have su: "subtotal iv1 =
         sum_list (map item_total_price (invoice_items (with_pending (working s3) its) iv1))"
    by (simp add: i1 calculate_subtotal)
  have ss: "sst_amount iv1 = (if 0 < subtotal iv1 then subtotal iv1 * (sst_rate iv1 / 100) else 0)"
    unfolding i1 by (simp add: calculate_sst_amount)
  have to: "total_amount iv1 = subtotal iv1 + sst_amount iv1"
    unfolding i1 by (rule calculate_total_amount)
  have t3: "items (working s3) = items (working s)"
    "invoices (working s3) = invoices (working s) @ [iv1]"
    "packages (working s3) = packages (working s)"
    "vouchers (working s3) = vouchers (working s)"
    "templates (working s3) = templates (working s)"
    "stored s3 = stored s"
    by (simp_all add: s3 s1)
  show ?thesis using f v ok l fk bi nu ra su ss to t3 by blast
qed

text \<open>
  The items of the invoice, for the session, are the pending ones when no row of the
  table carries the identifier of the new invoice.
\<close>

lemma pending_invoice_items:
  assumes fresh: "\<forall>it \<in> set (items db). item_invoice_id it \<noteq> Some (bubble_id iv1)"
    and fk: "\<forall>it \<in> set its. item_invoice_id it = Some (bubble_id iv1)"
  shows "invoice_items (with_pending db its) iv1 = its"
proof -
  have old: "filter (\<lambda>item. item_invoice_id item = Some (bubble_id iv1)) (items db) = []"
    using fresh by (simp add: filter_empty_conv)
  have new: "filter (\<lambda>item. item_invoice_id item = Some (bubble_id iv1)) its = its"
    using fk by (simp add: filter_id_conv)
  show ?thesis by (simp add: invoice_items_def old new)
qed

subsection \<open>The commit and the refresh\<close>

lemma commit_Inr:
  assumes "commit_and_refresh iv1 its s3 = (Inr iv, s')"
  shows "iv = stored_invoice iv1"
    and "\<not> invoice_overflow iv1"
    and "items (working s') = items (working s3) @ map stored_item its"
    and "invoices (working s') = butlast (invoices (working s3)) @ [iv]"
    and "packages (working s') = packages (working s3)"
    and "vouchers (working s') = vouchers (working s3)"
    and "templates (working s') = templates (working s3)"
    and "stored s' = working s'"
proof -
  have o: "\<not> invoice_overflow iv1" using assms by (auto simp: commit_and_refresh_def)
  then obtain db where i: "insert_items (working s3) its = Inr db"
    using assms by (cases "insert_items (working s3) its") (auto simp: commit_and_refresh_def)
  have db: "db = (working s3)\<lparr>items := items (working s3) @ map stored_item its\<rparr>"
    using insert_items_Inr[OF i] .
  have r: "iv = stored_invoice iv1"
    "s' = \<lparr>stored = db\<lparr>invoices := butlast (invoices db) @ [stored_invoice iv1]\<rparr>,
           working = db\<lparr>invoices := butlast (invoices db) @ [stored_invoice iv1]\<rparr>\<rparr>"
    using assms o i by (auto simp: commit_and_refresh_def Let_def)
  show "iv = stored_invoice iv1" by (rule r(1))
  show "\<not> invoice_overflow iv1" by (rule o)
  show "items (working s') = items (working s3) @ map stored_item its" by (simp add: r(2) db)
  show "invoices (working s') = butlast (invoices (working s3)) @ [iv]" by (simp add: r db)
  show "packages (working s') = packages (working s3)" by (simp add: r(2) db)
  show "vouchers (working s') = vouchers (working s3)" by (simp add: r(2) db)
  show "templates (working s') = templates (working s3)" by (simp add: r(2) db)
  show "stored s' = working s'" by (simp add: r(2))
qed


lemma create_Inr:
  assumes "create_on_the_fly cfg e s a = (Inr iv, s')"
  shows "\<exists>iv1 its s3. create_uncommitted cfg e s a = (Inr (iv1, its), s3)
           \<and> commit_and_refresh iv1 its s3 = (Inr iv, s')"
proof (cases "create_uncommitted cfg e s a")
  case (Pair r s3)
  show ?thesis
  proof (cases r)
    case (Inl er)
    then show ?thesis using assms Pair by (simp add: create_on_the_fly_def)
  next
    case (Inr p)
    then obtain iv1 its where "r = Inr (iv1, its)" by (cases p) auto
    then show ?thesis using assms Pair by (simp add: create_on_the_fly_def)
  qed
qed

lemma create_of_uncommitted:
  "create_uncommitted cfg e s a = (Inr (iv1, its), s3) \<Longrightarrow>
   create_on_the_fly cfg e s a = commit_and_refresh iv1 its s3"
  by (simp add: create_on_the_fly_def)

text \<open>
  A call that has reached the commit succeeds when the totals fit their columns and the
  database accepts every pending item.
\<close>

lemma create_accepted:
  assumes u: "create_uncommitted cfg e s a = (Inr (iv1, its), s3)"
    and fit: "\<not> invoice_overflow iv1"
    and ins: "insert_items (working s3) its = Inr db"
  shows "\<exists>s'. create_on_the_fly cfg e s a = (Inr (stored_invoice iv1), s')"
  using create_of_uncommitted[OF u] fit ins by (simp add: commit_and_refresh_def Let_def)

text \<open>
  The invoice a successful call returns and the rows it leaves: the invoice is the one
  the call reached the commit with, as the database stores it, and its items are the
  pending ones, as the database stores them.
\<close>

lemma created_facts:
  assumes c: "create_on_the_fly cfg e s a = (Inr iv, s')"
    and fresh: "\<forall>it \<in> set (items (working s)). item_invoice_id it \<noteq> Some (''inv_'' @ invoice_token e)"
  shows "\<exists>package v iv1 its s3.
      find (\<lambda>p. pkg_bubble_id p = arg_package_id a) (packages (working s)) = Some package
    \<and> handle_voucher (working s) package (arg_voucher_code a) = Inr v
    \<and> \<not> (0 < arg_discount_percent a \<and> pkg_price package = None)
    \<and> create_uncommitted cfg e s a = (Inr (iv1, its), s3)
    \<and> map item_summary its = expected_lines a package v
    \<and> invoice_items (with_pending (working s3) its) iv1 = its
    \<and> subtotal iv1 = sum_list (map item_total_price its)
    \<and> sst_amount iv1 = (if 0 < subtotal iv1 then subtotal iv1 * (sst_rate iv1 / 100) else 0)
    \<and> total_amount iv1 = subtotal iv1 + sst_amount iv1
    \<and> sst_rate iv1 = resolve_sst_rate cfg (working s) (arg_apply_sst a)
                         (resolve_template_id (working s) (arg_template_id a))
    \<and> iv = stored_invoice iv1
    \<and> invoice_items (working s') iv = map stored_item its
    \<and> invoices (working s') = invoices (working s) @ [iv]
    \<and> stored s' = working s'
    \<and> packages (working s') = packages (working s)
    \<and> vouchers (working s') = vouchers (working s)
    \<and> templates (working s') = templates (working s)"
proof -
  obtain iv1 its s3 where u: "create_uncommitted cfg e s a = (Inr (iv1, its), s3)"
    and cr: "commit_and_refresh iv1 its s3 = (Inr iv, s')"
    using create_Inr[OF c] by blast
  obtain package v where
    f: "find (\<lambda>p. pkg_bubble_id p = arg_package_id a) (packages (working s)) = Some package"
    and v: "handle_voucher (working s) package (arg_voucher_code a) = Inr v"
    and ok: "\<not> (0 < arg_discount_percent a \<and> pkg_price package = None)"
    and l: "map item_summary its = expected_lines a package v"
    and fk: "\<forall>it \<in> set its. item_invoice_id it = Some (bubble_id iv1)"
    and bi: "bubble_id iv1 = ''inv_'' @ invoice_token e"
    and ra: "sst_rate iv1 = resolve_sst_rate cfg (working s) (arg_apply_sst a)
                         (resolve_template_id (working s) (arg_template_id a))"
    and su: "subtotal iv1 =
         sum_list (map item_total_price (invoice_items (with_pending (working s3) its) iv1))"
    and ss: "sst_amount iv1 = (if 0 < subtotal iv1 then subtotal iv1 * (sst_rate iv1 / 100) else 0)"
    and to: "total_amount iv1 = subtotal iv1 + sst_amount iv1"
    and i3: "items (working s3) = items (working s)"
    and n3: "invoices (working s3) = invoices (working s) @ [iv1]"
    and o3: "packages (working s3) = packages (working s)"
      "vouchers (working s3) = vouchers (working s)"
      "templates (working s3) = templates (working s)"
    using uncommitted_facts[OF u] by blast
  note cm = commit_Inr[OF cr]
  have o: "packages (working s') = packages (working s)"
    "vouchers (working s') = vouchers (working s)"
    "templates (working s') = templates (working s)"
    using cm(5,6,7) o3 by simp_all
  have fr3: "\<forall>it \<in> set (items (working s3)). item_invoice_id it \<noteq> Some (bubble_id iv1)"
    using fresh by (simp add: i3 bi)
  have pe: "invoice_items (with_pending (working s3) its) iv1 = its"
    using pending_invoice_items[OF fr3 fk] .
  have su': "subtotal iv1 = sum_list (map item_total_price its)" using su pe by simp
  have old: "filter (\<lambda>item. item_invoice_id item = Some (bubble_id iv1)) (items (working s3)) = []"
    using fr3 by (simp add: filter_empty_conv)
  have new: "filter (\<lambda>item. item_invoice_id item = Some (bubble_id iv1)) (map stored_item its)
               = map stored_item its"
    using fk by (simp add: filter_id_conv)
  have st: "invoice_items (working s') iv = map stored_item its"
    by (simp add: invoice_items_def cm(1) cm(3) old new)
  have nv: "invoices (working s') = invoices (working s) @ [iv]"
    by (simp add: cm(4) n3)
  show ?thesis using f v ok u l pe su' ss to ra cm(1) st nv cm(8) o by blast
qed

text \<open>A call the database refuses at the \<^verbatim>\<open>INSERT\<close> of the invoice.\<close>

lemma create_refused:
  assumes f: "find (\<lambda>p. pkg_bubble_id p = arg_package_id a) (packages (working s)) = Some package"
    and hc: "handle_customer e s a = Inr (snap, s1)"
    and v: "handle_voucher (working s) package (arg_voucher_code a) = Inr v"
    and ex: "share_expiry cfg e = Inr t"
    and i0: "inv0 = new_invoice cfg e (working s) a package snap v
                      (resolve_template_id (working s) (arg_template_id a))
                      (resolve_sst_rate cfg (working s) (arg_apply_sst a)
                         (resolve_template_id (working s) (arg_template_id a))) t"
    and ins: "insert_invoice_error (working s1) inv0 = Some err"
  shows "create_on_the_fly cfg e s a = (Inl err, rollback s1)"
proof -
  have s1: "vouchers (working s1) = vouchers (working s)"
    "templates (working s1) = templates (working s)" "invoices (working s1) = invoices (working s)"
    using handle_customer_tables[OF hc] by simp_all
  have hv: "handle_voucher (working s1) package (arg_voucher_code a) = Inr v"
    using v handle_voucher_cong[OF s1(1)] by simp
  define tid where "tid = resolve_template_id (working s1) (arg_template_id a)"
  define rate where "rate = resolve_sst_rate cfg (working s1) (arg_apply_sst a) tid"
  have tid: "tid = resolve_template_id (working s) (arg_template_id a)"
    using resolve_template_id_cong[OF s1(2)] by (simp add: tid_def)
  have rate: "rate = resolve_sst_rate cfg (working s) (arg_apply_sst a)
                         (resolve_template_id (working s) (arg_template_id a))"
    using resolve_sst_rate_cong[OF s1(2)] by (simp add: rate_def tid)
  have n: "new_invoice cfg e (working s1) a package snap v tid rate t = inv0"
    using new_invoice_cong[OF s1(3)] by (simp add: i0 tid rate)
  have "create_uncommitted cfg e s a = (Inl err, rollback s1)"
    unfolding create_uncommitted_def
    by (simp only: f hc hv ex option.case prod.case sum.case Let_def
        tid_def[symmetric] rate_def[symmetric] n ins)
  then show ?thesis by (simp add: create_on_the_fly_def)
qed

subsection \<open>The calls that fail\<close>



subsection \<open>Sums of the lines\<close>






section \<open>Evaluation on the concrete data\<close>

lemmas model_defs =
  create_on_the_fly_def create_uncommitted_def commit_and_refresh_def
  handle_customer_def handle_voucher_def find_voucher_def voucher_amount_of_def
  truthy_decimal_def truthy_int_def truthy_str_def truthy_bool_def
  resolve_template_id_def resolve_sst_rate_def
  share_expiry_def microseconds_per_day_def datetime_min_def datetime_max_def new_invoice_def
  insert_invoice_error_def invoice_overflow_def invoice_keys_taken_def
  invoice_references_missing_def user_missing_def
  numeric_overflow_def numeric_overflow_opt_def integer_overflow_opt_def integer_overflow_def
  numeric_round_def round_half_away_def floor_rat_numeral floor_rat_one
  add_invoice_def package_item_def line_item_def package_description_def price_or_zero_def
  add_fixed_discount_def add_percent_discount_def add_voucher_item_def add_epp_fee_item_def
  with_pending_def calculate_invoice_totals_def invoice_items_def query_items_def
  set_added_invoice_def insert_item_error_def item_overflow_def stored_item_def
  stored_invoice_def rollback_def Let_def generate_invoice_number_def

lemmas data_defs =
  example_session_def example_tables_def example_args_def example_env_def example_package_def
  example_voucher_def default_settings_def cents_session_def cents_package_def cents_args_def
  excess_percent_args_def overdiscount_args_def both_discounts_args_def







lemma cents_computed:
  "computed_totals (create_uncommitted default_settings example_env cents_session cents_args)
     = Some (8, 850034 / 1000, 6800272 / 100000, 91803672 / 100000)"
  by (simp add: computed_totals_def model_defs data_defs)








lemma example_voucher_amount:
  "handle_voucher (working example_session) example_package (arg_voucher_code example_args) = Inr 100"
  by (simp add: handle_voucher_def find_voucher_def voucher_amount_of_def example_args_def
      example_session_def example_tables_def example_voucher_def truthy_decimal_def)



section \<open>An unknown package\<close>

text \<open>
  Claim C4. When the package id resolves to no package, \<^verbatim>\<open>create_on_the_fly\<close> raises
  its not-found error (the \<^verbatim>\<open>ValueError\<close> ``Package not found''), which the HTTP layer
  answers with the client error 400, and the session is returned as it was: no customer,
  invoice or item row is added, neither to the open transaction nor to the stored
  tables.
\<close>

theorem package_not_found:
  assumes "find (\<lambda>p. pkg_bubble_id p = arg_package_id a) (packages (working s)) = None"
  shows "create_on_the_fly cfg e s a =
           (Inl (ValueError (''Package not found: '' @ arg_package_id a)), s)
       \<and> create_invoice_on_the_fly_status (fst (create_on_the_fly cfg e s a)) = 400"
  using assms
  by (simp add: create_on_the_fly_def create_uncommitted_def create_invoice_on_the_fly_status_def)

theorem package_not_found_witness:
  "create_on_the_fly default_settings example_env example_session
       (example_args\<lparr>arg_package_id := ''pkg_404''\<rparr>) =
     (Inl (ValueError ''Package not found: pkg_404''), example_session)
   \<and> create_invoice_on_the_fly_status
        (fst (create_on_the_fly default_settings example_env example_session
               (example_args\<lparr>arg_package_id := ''pkg_404''\<rparr>))) = 400"
proof -
  have h: "find (\<lambda>p. pkg_bubble_id p = arg_package_id (example_args\<lparr>arg_package_id := ''pkg_404''\<rparr>))
             (packages (working example_session)) = None"
    by (simp add: example_session_def example_tables_def example_package_def)
  show ?thesis
    using package_not_found[OF h, of default_settings example_env]
    by (simp add: create_invoice_on_the_fly_status_def)
qed

section \<open>No tax on a subtotal that is not positive\<close>

lemma overdiscounted_subtotal:
  "subtotal (calculate_invoice_totals overdiscounted_tables example_invoice) = - 100"
  by (simp add: calculate_subtotal invoice_items_def overdiscounted_tables_def line_item_def)

lemma sst_amount_nonnegative:
  "0 \<le> sst_rate invoice \<Longrightarrow> 0 \<le> sst_amount (calculate_invoice_totals db invoice)"
  by (simp add: calculate_sst_amount)

text \<open>
  Claim C10. When the subtotal \<^verbatim>\<open>_calculate_invoice_totals\<close> computes is zero or
  negative, the tax amount is exactly zero, whatever the tax rate of the invoice, so it
  is not negative, and the total equals the subtotal.
\<close>

theorem nonpositive_subtotal_zero_tax:
  assumes "subtotal (calculate_invoice_totals db invoice) \<le> 0"
  shows "sst_amount (calculate_invoice_totals db invoice) = 0
       \<and> \<not> sst_amount (calculate_invoice_totals db invoice) < 0
       \<and> total_amount (calculate_invoice_totals db invoice) =
           subtotal (calculate_invoice_totals db invoice)"
  using assms by (simp add: calculate_sst_amount calculate_total_amount)

theorem nonpositive_subtotal_zero_tax_witness:
  "subtotal (calculate_invoice_totals overdiscounted_tables example_invoice) \<le> 0
   \<and> sst_rate example_invoice = 8
   \<and> sst_amount (calculate_invoice_totals overdiscounted_tables example_invoice) = 0
   \<and> total_amount (calculate_invoice_totals overdiscounted_tables example_invoice) = - 100"
proof -
  have h: "subtotal (calculate_invoice_totals overdiscounted_tables example_invoice) \<le> 0"
    by (simp add: overdiscounted_subtotal)
  have r: "sst_rate example_invoice = 8" by (simp add: example_invoice_def new_invoice_def)
  show ?thesis
    using nonpositive_subtotal_zero_tax[OF h] h r by (simp add: overdiscounted_subtotal)
qed

section \<open>The subtotal of a created invoice\<close>




section \<open>Total, subtotal and tax\<close>




section \<open>Sort orders of the line items\<close>







section \<open>The voucher line\<close>










section \<open>Discounts larger than the price\<close>




section \<open>Resolving a share token\<close>

lemma find_unique:
  "length (filter P xs) \<le> 1 \<Longrightarrow> x \<in> set xs \<Longrightarrow> P x \<Longrightarrow> find P xs = Some x"
proof (induction xs)
  case Nil
  then show ?case by simp
next
  case (Cons y ys)
  show ?case
  proof (cases "P y")
    case True
    then have "filter P ys = []" using Cons.prems(1) by simp
    then have "\<forall>z \<in> set ys. \<not> P z" by (simp add: filter_empty_conv)
    then have "x = y" using Cons.prems(2,3) by auto
    then show ?thesis using True by simp
  next
    case False
    then have "x \<in> set ys" using Cons.prems(2,3) by auto
    moreover have "length (filter P ys) \<le> 1" using Cons.prems(1) False by simp
    ultimately show ?thesis using Cons.IH Cons.prems(3) False by simp
  qed
qed

lemma find_Some_member: "find P xs = Some x \<Longrightarrow> x \<in> set xs \<and> P x"
  by (induction xs) (auto split: if_splits)

lemma get_by_share_token_Some:
  "get_by_share_token s now_utc tok = Some invoice \<longleftrightarrow>
     find (\<lambda>i. share_token i = Some tok) (invoices (working s)) = Some invoice
   \<and> share_enabled invoice = Some True
   \<and> (case share_expires_at invoice of None \<Rightarrow> True | Some expires \<Rightarrow> now_utc \<le> expires)"
  by (auto simp: get_by_share_token_def truthy_bool_def split: option.splits if_splits)

lemma shared_invoice_fields:
  "share_token shared_invoice = Some ''s3cr3t''"
  "share_enabled shared_invoice = Some True"
  "share_expires_at shared_invoice = Some 1000"
  "share_access_count shared_invoice = Some 0"
  "updated_at shared_invoice = Some 1769471999990000"
  "viewed_at shared_invoice = None"
  "bubble_id shared_invoice = ''inv_00112233445566ff''"
  by (simp_all add: shared_invoice_def example_invoice_def new_invoice_def example_env_def)

lemma shared_session_invoices: "invoices (working shared_session) = [shared_invoice]"
  by (simp add: shared_session_def)

text \<open>
  Claim C5, as amended. For a token that at most one invoice carries (the column is
  unique), \<^verbatim>\<open>get_by_share_token\<close> returns an invoice if and only if it is an invoice of
  the table with that token, its sharing is enabled and it has no expiry or its expiry
  is not before the current time; it returns \<^verbatim>\<open>None\<close> exactly when there is no such
  invoice, so that an unknown, a disabled and an expired token give the same result.
\<close>

theorem share_token_resolution:
  assumes uniq: "length (filter (\<lambda>i. share_token i = Some tok) (invoices (working s))) \<le> 1"
  shows "(get_by_share_token s now_utc tok = Some invoice \<longleftrightarrow>
            invoice \<in> set (invoices (working s))
          \<and> share_token invoice = Some tok
          \<and> share_enabled invoice = Some True
          \<and> (case share_expires_at invoice of None \<Rightarrow> True | Some expires \<Rightarrow> now_utc \<le> expires))
       \<and> (get_by_share_token s now_utc tok = None \<longleftrightarrow>
            \<not> (\<exists>i \<in> set (invoices (working s)).
                  share_token i = Some tok
                \<and> share_enabled i = Some True
                \<and> (case share_expires_at i of None \<Rightarrow> True | Some expires \<Rightarrow> now_utc \<le> expires)))"
proof -
  have a: "\<And>i. get_by_share_token s now_utc tok = Some i \<longleftrightarrow>
            i \<in> set (invoices (working s))
          \<and> share_token i = Some tok
          \<and> share_enabled i = Some True
          \<and> (case share_expires_at i of None \<Rightarrow> True | Some expires \<Rightarrow> now_utc \<le> expires)"
    using find_unique[OF uniq] find_Some_member[of "\<lambda>i. share_token i = Some tok" "invoices (working s)"]
    unfolding get_by_share_token_Some by blast
  have "get_by_share_token s now_utc tok = None \<longleftrightarrow>
          \<not> (\<exists>i. get_by_share_token s now_utc tok = Some i)" by auto
  then show ?thesis unfolding a by blast
qed

theorem share_token_resolution_witness:
  "get_by_share_token shared_session 999 ''s3cr3t'' = Some shared_invoice
   \<and> get_by_share_token shared_session 1001 ''s3cr3t'' = None
   \<and> get_by_share_token shared_session 999 ''other'' = None"
proof -
  have u: "length (filter (\<lambda>i. share_token i = Some ''s3cr3t'') (invoices (working shared_session))) \<le> 1"
    and u2: "length (filter (\<lambda>i. share_token i = Some ''other'') (invoices (working shared_session))) \<le> 1"
    by (simp_all add: shared_session_invoices)
  show ?thesis
    using share_token_resolution[OF u, of 999 shared_invoice]
      share_token_resolution[OF u, of 1001 shared_invoice]
      share_token_resolution[OF u2, of 999 shared_invoice]
    by (simp add: shared_session_invoices shared_invoice_fields)
qed

text \<open>
  The claim as first stated asks for an expiry in the future. At the instant of the
  expiry itself the link still resolves: the source rejects only
  \<^verbatim>\<open>share_expires_at < now\<close>.
\<close>

theorem expiry_at_now_counterexample:
  "get_by_share_token shared_session 1000 ''s3cr3t'' = Some shared_invoice
   \<and> share_expires_at shared_invoice = Some 1000
   \<and> \<not> share_valid_as_claimed 1000 shared_invoice"
  by (simp add: get_by_share_token_def shared_session_invoices shared_invoice_fields
      truthy_bool_def share_valid_as_claimed_def)

section \<open>Recording a view\<close>

lemma find_split:
  "find P xs = Some x \<Longrightarrow>
   \<exists>before after. xs = before @ x # after \<and> (\<forall>y \<in> set before. \<not> P y) \<and> P x"
proof (induction xs)
  case Nil
  then show ?case by simp
next
  case (Cons y ys)
  show ?case
  proof (cases "P y")
    case True
    then have "x = y" using Cons.prems by simp
    then have "y # ys = [] @ x # ys \<and> (\<forall>z \<in> set []. \<not> P z) \<and> P x" using True by simp
    then show ?thesis by blast
  next
    case False
    then have "find P ys = Some x" using Cons.prems by simp
    then obtain before after where h: "ys = before @ x # after" "\<forall>z \<in> set before. \<not> P z" "P x"
      using Cons.IH by blast
    then have "y # ys = (y # before) @ x # after \<and> (\<forall>z \<in> set (y # before). \<not> P z) \<and> P x"
      using False by simp
    then show ?thesis by blast
  qed
qed

lemma update_first_at:
  "\<forall>y \<in> set before. \<not> P y \<Longrightarrow> P x \<Longrightarrow>
   update_first P f (before @ x # after) = before @ f x # after"
  by (induction before) simp_all

lemma find_at:
  "\<forall>y \<in> set before. \<not> P y \<Longrightarrow> P x \<Longrightarrow> find P (before @ x # after) = Some x"
  by (induction before) simp_all

lemma assign_at:
  assumes "invoices (working s) = before @ x # after"
    and "\<forall>i \<in> set before. bubble_id i \<noteq> bid"
    and "bubble_id x = bid"
  shows "assign bid f s = s\<lparr>working := (working s)\<lparr>invoices := before @ f x # after\<rparr>\<rparr>"
  using assms update_first_at[of before "\<lambda>i. bubble_id i = bid" x f after]
  by (simp add: assign_def)

lemma record_view_missing:
  "get_by_id s bid = None \<Longrightarrow> record_view s now_utc db_time bid = (None, s)"
  by (simp add: record_view_def)

lemma record_view_found:
  assumes g: "get_by_id s bid = Some invoice"
    and n: "share_access_count invoice = Some n"
    and r: "\<not> integer_overflow (n + 1)"
  shows "\<exists>before after s'.
        invoices (working s) = before @ invoice # after
      \<and> (\<forall>i \<in> set before. bubble_id i \<noteq> bid)
      \<and> record_view s now_utc db_time bid = (None, s')
      \<and> working s' =
          (working s)\<lparr>invoices :=
             before @ invoice\<lparr>viewed_at := Some now_utc,
                                share_access_count := Some (n + 1),
                                updated_at := Some db_time\<rparr> # after\<rparr>
      \<and> stored s' = working s'
      \<and> get_by_id s' bid =
          Some (invoice\<lparr>viewed_at := Some now_utc,
                        share_access_count := Some (n + 1),
                        updated_at := Some db_time\<rparr>)"
proof -
  obtain before after where h: "invoices (working s) = before @ invoice # after"
    "\<forall>i \<in> set before. bubble_id i \<noteq> bid" "bubble_id invoice = bid"
    using find_split[OF g[unfolded get_by_id_def]] by blast
  define s1 where "s1 = assign bid (\<lambda>i. i\<lparr>viewed_at := Some now_utc\<rparr>) s"
  define s2 where "s2 = assign bid (\<lambda>i. i\<lparr>share_access_count := Some (n + 1)\<rparr>) s1"
  define s3 where "s3 = assign bid (\<lambda>i. i\<lparr>updated_at := Some db_time\<rparr>) s2"
  have e1: "s1 = s\<lparr>working := (working s)\<lparr>invoices :=
                    before @ invoice\<lparr>viewed_at := Some now_utc\<rparr> # after\<rparr>\<rparr>"
    unfolding s1_def by (rule assign_at[OF h])
  have i1: "invoices (working s1) = before @ invoice\<lparr>viewed_at := Some now_utc\<rparr> # after"
    by (simp add: e1)
  have b1: "bubble_id (invoice\<lparr>viewed_at := Some now_utc\<rparr>) = bid" using h(3) by simp
  have e2: "s2 = s1\<lparr>working := (working s1)\<lparr>invoices :=
                    before @ invoice\<lparr>viewed_at := Some now_utc,
                                       share_access_count := Some (n + 1)\<rparr> # after\<rparr>\<rparr>"
    unfolding s2_def using assign_at[OF i1 h(2) b1] by simp
  have i2: "invoices (working s2) =
              before @ invoice\<lparr>viewed_at := Some now_utc,
                                 share_access_count := Some (n + 1)\<rparr> # after"
    by (simp add: e2)
  have b2: "bubble_id (invoice\<lparr>viewed_at := Some now_utc,
                               share_access_count := Some (n + 1)\<rparr>) = bid"
    using h(3) by simp
  have e3: "s3 = s2\<lparr>working := (working s2)\<lparr>invoices :=
                    before @ invoice\<lparr>viewed_at := Some now_utc,
                                       share_access_count := Some (n + 1),
                                       updated_at := Some db_time\<rparr> # after\<rparr>\<rparr>"
    unfolding s3_def using assign_at[OF i2 h(2) b2] by simp
  have w: "working (commit s3) =
          (working s)\<lparr>invoices :=
             before @ invoice\<lparr>viewed_at := Some now_utc,
                                share_access_count := Some (n + 1),
                                updated_at := Some db_time\<rparr> # after\<rparr>"
    by (simp add: e3 e2 e1)
  have rv: "record_view s now_utc db_time bid = (None, commit s3)"
    unfolding record_view_def
    by (simp only: g n r option.case Let_def if_False s1_def[symmetric] s2_def[symmetric]
        s3_def[symmetric])
  have b3: "bubble_id (invoice\<lparr>viewed_at := Some now_utc,
                               share_access_count := Some (n + 1),
                               updated_at := Some db_time\<rparr>) = bid"
    using h(3) by simp
  have na: "\<forall>y \<in> set before. \<not> bubble_id y = bid" using h(2) by simp
  have gb: "get_by_id (commit s3) bid =
          Some (invoice\<lparr>viewed_at := Some now_utc,
                        share_access_count := Some (n + 1),
                        updated_at := Some db_time\<rparr>)"
    unfolding get_by_id_def w using find_at[of before "\<lambda>i. bubble_id i = bid", OF na b3]
    by simp
  have st: "stored (commit s3) = working (commit s3)" by simp
  show ?thesis using h(1,2) rv w st gb by blast
qed

lemma record_views_missing:
  "get_by_id s bid = None \<Longrightarrow> record_views s ts bid = (None, s)"
  by (induction ts) (simp_all add: record_view_missing)

lemma record_views_count:
  "get_by_id s bid = Some invoice \<Longrightarrow> share_access_count invoice = Some n \<Longrightarrow>
   - 2147483648 \<le> n + 1 \<Longrightarrow> n + int (length ts) \<le> 2147483647 \<Longrightarrow>
   \<exists>s'. record_views s ts bid = (None, s')
      \<and> map_option share_access_count (get_by_id s' bid) = Some (Some (n + int (length ts)))"
proof (induction ts arbitrary: s invoice n)
  case Nil
  then show ?case by simp
next
  case (Cons t ts)
  have r: "\<not> integer_overflow (n + 1)"
    using Cons.prems(3,4) by (simp add: integer_overflow_def)
  obtain s1 where rv: "record_view s (fst t) (snd t) bid = (None, s1)"
    and g1: "get_by_id s1 bid =
          Some (invoice\<lparr>viewed_at := Some (fst t),
                        share_access_count := Some (n + 1),
                        updated_at := Some (snd t)\<rparr>)"
    using record_view_found[OF Cons.prems(1,2) r, of "fst t" "snd t"] by blast
  have c1: "share_access_count (invoice\<lparr>viewed_at := Some (fst t),
                        share_access_count := Some (n + 1),
                        updated_at := Some (snd t)\<rparr>) = Some (n + 1)" by simp
  have lo: "- 2147483648 \<le> (n + 1) + 1" using Cons.prems(3) by simp
  have hi: "(n + 1) + int (length ts) \<le> 2147483647" using Cons.prems(4) by simp
  from Cons.IH[OF g1 c1 lo hi] obtain s' where
    a: "record_views s1 ts bid = (None, s')"
    and b: "map_option share_access_count (get_by_id s' bid) = Some (Some (n + 1 + int (length ts)))"
    by blast
  have e: "n + 1 + int (length ts) = n + int (length (t # ts))" by simp
  have "record_views s (t # ts) bid = (None, s')" using rv a by simp
  then show ?case using b unfolding e by blast
qed

lemma shared_get_by_id:
  "get_by_id shared_session ''inv_00112233445566ff'' = Some shared_invoice"
  "get_by_id shared_session ''inv_unknown'' = None"
  by (simp_all add: get_by_id_def shared_session_invoices shared_invoice_fields)

text \<open>
  On an invoice whose counter is NULL the increment raises a \<^verbatim>\<open>TypeError\<close>; nothing
  is committed.
\<close>

lemma record_view_null_counter:
  "fst (record_view uncounted_session 5 6 ''inv_00112233445566ff'') = Some TypeError"
  "stored (snd (record_view uncounted_session 5 6 ''inv_00112233445566ff''))
     = stored uncounted_session"
  by (simp_all add: record_view_def get_by_id_def uncounted_session_def assign_def
      shared_invoice_fields Let_def)

text \<open>
  Claim C6, as amended. \<^verbatim>\<open>record_view\<close> on an identifier no invoice has returns the
  session as it was and raises nothing, however often it is called. On an existing
  invoice whose access counter is set and below the greatest 32-bit integer it adds
  exactly 1 to the counter, sets the view time and commits; the \<^verbatim>\<open>UPDATE\<close> also
  sets \<^verbatim>\<open>updated_at\<close> to the time of the transaction, and no other field of the
  invoice, no other invoice and no other table changes. Called once for each of a list
  of times, it raises nothing and adds the length of the list to the counter, as long
  as the counter stays within 32 bits.
\<close>

theorem record_view_effect:
  "(get_by_id s bid = None \<longrightarrow>
      record_view s now_utc db_time bid = (None, s) \<and> record_views s ts bid = (None, s))
   \<and> (get_by_id s bid = Some invoice \<and> share_access_count invoice = Some n
        \<and> \<not> integer_overflow (n + 1) \<longrightarrow>
        (\<exists>before after s'.
            invoices (working s) = before @ invoice # after
          \<and> (\<forall>i \<in> set before. bubble_id i \<noteq> bid)
          \<and> record_view s now_utc db_time bid = (None, s')
          \<and> working s' =
              (working s)\<lparr>invoices :=
                 before @ invoice\<lparr>viewed_at := Some now_utc,
                                    share_access_count := Some (n + 1),
                                    updated_at := Some db_time\<rparr> # after\<rparr>
          \<and> stored s' = working s'
          \<and> get_by_id s' bid =
              Some (invoice\<lparr>viewed_at := Some now_utc,
                            share_access_count := Some (n + 1),
                            updated_at := Some db_time\<rparr>)))
   \<and> (get_by_id s bid = Some invoice \<and> share_access_count invoice = Some n
        \<and> - 2147483648 \<le> n + 1 \<and> n + int (length ts) \<le> 2147483647 \<longrightarrow>
        (\<exists>s'. record_views s ts bid = (None, s')
            \<and> map_option share_access_count (get_by_id s' bid)
                = Some (Some (n + int (length ts)))))"
proof (intro conjI impI)
  assume "get_by_id s bid = None"
  then show "record_view s now_utc db_time bid = (None, s)" by (rule record_view_missing)
next
  assume "get_by_id s bid = None"
  then show "record_views s ts bid = (None, s)" by (rule record_views_missing)
next
  assume "get_by_id s bid = Some invoice \<and> share_access_count invoice = Some n
        \<and> \<not> integer_overflow (n + 1)"
  then show "\<exists>before after s'.
            invoices (working s) = before @ invoice # after
          \<and> (\<forall>i \<in> set before. bubble_id i \<noteq> bid)
          \<and> record_view s now_utc db_time bid = (None, s')
          \<and> working s' =
              (working s)\<lparr>invoices :=
                 before @ invoice\<lparr>viewed_at := Some now_utc,
                                    share_access_count := Some (n + 1),
                                    updated_at := Some db_time\<rparr> # after\<rparr>
          \<and> stored s' = working s'
          \<and> get_by_id s' bid =
              Some (invoice\<lparr>viewed_at := Some now_utc,
                            share_access_count := Some (n + 1),
                            updated_at := Some db_time\<rparr>)"
    using record_view_found[of s bid invoice n now_utc db_time] by blast
next
  assume "get_by_id s bid = Some invoice \<and> share_access_count invoice = Some n
        \<and> - 2147483648 \<le> n + 1 \<and> n + int (length ts) \<le> 2147483647"
  then show "\<exists>s'. record_views s ts bid = (None, s')
            \<and> map_option share_access_count (get_by_id s' bid)
                = Some (Some (n + int (length ts)))"
    using record_views_count[of s bid invoice n ts] by blast
qed

theorem record_view_effect_witness:
  "record_view shared_session 5 6 ''inv_unknown'' = (None, shared_session)
   \<and> record_views shared_session [(5, 6), (7, 8), (9, 10)] ''inv_unknown'' = (None, shared_session)
   \<and> (\<exists>s'. record_view shared_session 5 6 ''inv_00112233445566ff'' = (None, s')
          \<and> get_by_id s' ''inv_00112233445566ff''
              = Some (shared_invoice\<lparr>viewed_at := Some 5, share_access_count := Some 1,
                                     updated_at := Some 6\<rparr>))
   \<and> (\<exists>s'. record_views shared_session [(5, 6), (7, 8), (9, 10)] ''inv_00112233445566ff''
              = (None, s')
          \<and> map_option share_access_count (get_by_id s' ''inv_00112233445566ff'')
              = Some (Some 3))"
proof -
  have a: "record_view shared_session 5 6 ''inv_unknown'' = (None, shared_session)
         \<and> record_views shared_session [(5, 6), (7, 8), (9, 10)] ''inv_unknown''
             = (None, shared_session)"
    using record_view_effect[where s = shared_session and bid = "''inv_unknown''" and now_utc = 5
        and db_time = 6 and ts = "[(5, 6), (7, 8), (9, 10)]" and invoice = shared_invoice and n = 0]
      shared_get_by_id(2)
    by blast
  have h: "get_by_id shared_session ''inv_00112233445566ff'' = Some shared_invoice
         \<and> share_access_count shared_invoice = Some 0 \<and> \<not> integer_overflow (0 + 1)"
    and h2: "get_by_id shared_session ''inv_00112233445566ff'' = Some shared_invoice
         \<and> share_access_count shared_invoice = Some 0
         \<and> - 2147483648 \<le> (0::int) + 1
         \<and> 0 + int (length [(5 :: int, 6 :: int), (7, 8), (9, 10)]) \<le> 2147483647"
    by (simp_all add: shared_get_by_id(1) shared_invoice_fields integer_overflow_def)
  have b: "(\<exists>s'. record_view shared_session 5 6 ''inv_00112233445566ff'' = (None, s')
          \<and> get_by_id s' ''inv_00112233445566ff''
              = Some (shared_invoice\<lparr>viewed_at := Some 5, share_access_count := Some (0 + 1),
                                     updated_at := Some 6\<rparr>))"
    using record_view_effect[where s = shared_session and bid = "''inv_00112233445566ff''"
        and now_utc = 5 and db_time = 6 and ts = "[(5, 6), (7, 8), (9, 10)]"
        and invoice = shared_invoice and n = 0] h
    by blast
  have c: "(\<exists>s'. record_views shared_session [(5, 6), (7, 8), (9, 10)] ''inv_00112233445566ff''
              = (None, s')
          \<and> map_option share_access_count (get_by_id s' ''inv_00112233445566ff'')
              = Some (Some (0 + int (length [(5 :: int, 6 :: int), (7, 8), (9, 10)]))))"
    using record_view_effect[where s = shared_session and bid = "''inv_00112233445566ff''"
        and now_utc = 5 and db_time = 6 and ts = "[(5, 6), (7, 8), (9, 10)]"
        and invoice = shared_invoice and n = 0] h2
    by blast
  show ?thesis using a b c by (simp del: record_views.simps)
qed

text \<open>
  The claim as first stated lets no other field change and lets the call be repeated
  any number of times. The \<^verbatim>\<open>UPDATE\<close> of \<^verbatim>\<open>record_view\<close> also rewrites
  \<^verbatim>\<open>updated_at\<close>, a column with \<^verbatim>\<open>onupdate=func.now()\<close>: here it goes from the
  time the invoice was created to the time 6 of the transaction that records the view.
  And on an invoice whose counter is 2147483647, the greatest value of the
  \<^verbatim>\<open>Integer\<close> column, the call raises a \<^verbatim>\<open>DataError\<close> and the counter stays as
  it is.
\<close>

theorem updated_at_counterexample:
  "get_by_id shared_session ''inv_00112233445566ff'' = Some shared_invoice
   \<and> updated_at shared_invoice = Some 1769471999990000
   \<and> fst (record_view shared_session 5 6 ''inv_00112233445566ff'') = None
   \<and> map_option updated_at
        (get_by_id (snd (record_view shared_session 5 6 ''inv_00112233445566ff''))
           ''inv_00112233445566ff'') = Some (Some 6)
   \<and> map_option share_access_count (get_by_id maxed_session ''inv_00112233445566ff'')
       = Some (Some 2147483647)
   \<and> fst (record_view maxed_session 5 6 ''inv_00112233445566ff'') = Some DataError
   \<and> map_option share_access_count
        (get_by_id (snd (record_view maxed_session 5 6 ''inv_00112233445566ff''))
           ''inv_00112233445566ff'') = Some (Some 2147483647)"
  by (simp add: record_view_def get_by_id_def shared_session_def maxed_session_def assign_def
      shared_invoice_fields Let_def integer_overflow_def)

section \<open>The invoice number after 999999\<close>

lemma py_str_million: "py_str 1000000 = ''1000000''"
  by (simp add: py_str_def str_nat.simps)

lemma py_int_999999: "py_int ''999999'' = Some 999999"
  by (simp add: py_int_def strip_def is_space_def is_digit_def digit_value_def)

lemma py_int_no_break_space: "py_int (CHR 0xA0 # ''42'' @ [CHR 0x85]) = Some 42"
  by (simp add: py_int_def strip_def is_space_def is_digit_def digit_value_def)

lemma replace_999999: "replace_with_empty ''INV-'' ''INV-999999'' = ''999999''"
  by simp

lemma less_million: "str_less ''INV-1000000'' ''INV-999999''"
  by simp

lemma last_invoice_one: "last_invoice [numbered_invoice ''INV-999999''] = Some (numbered_invoice ''INV-999999'')"
  by simp

lemma last_invoice_two:
  "last_invoice [numbered_invoice ''INV-999999'', numbered_invoice ''INV-1000000'']
     = Some (numbered_invoice ''INV-999999'')"
  "last_invoice [numbered_invoice ''INV-1000000'', numbered_invoice ''INV-999999'']
     = Some (numbered_invoice ''INV-999999'')"
  using less_million by (simp_all add: numbered_invoice_def)

lemma zfill_million: "zfill ''1000000'' 6 = ''1000000''"
  by (simp add: zfill_def)

lemma numbered_simps:
  "invoices (tables_numbered ns) = map numbered_invoice ns"
  "invoice_number (numbered_invoice n) = n"
  by (simp_all add: tables_numbered_def numbered_invoice_def)

lemma default_prefix:
  "INVOICE_NUMBER_PREFIX default_settings = ''INV''"
  "INVOICE_NUMBER_LENGTH default_settings = 6"
  by (simp_all add: default_settings_def)

lemma generate_at_capacity:
  "generate_invoice_number default_settings (tables_numbered [''INV-999999'']) = ''INV-1000000''"
proof -
  have n: "(999999::int) + 1 = 1000000" by simp
  have c: "''INV'' @ ''-'' = ''INV-''" "''INV'' @ ''-'' @ ''1000000'' = ''INV-1000000''" by simp_all
  show ?thesis
    unfolding generate_invoice_number_def
    by (simp only: numbered_simps default_prefix list.map last_invoice_one
        option.case Let_def c replace_999999 py_int_999999 n py_str_million zfill_million)
qed

text \<open>
  Claim C3. The generator formats the number as the claim says, but it does not read
  the highest numeric suffix: it takes the invoice number that is greatest as a string.
  With the settings of \<^verbatim>\<open>config.py\<close> and the invoice \<^verbatim>\<open>INV-999999\<close> in the table it
  returns \<^verbatim>\<open>INV-1000000\<close>; once that invoice is in the table too, the greatest
  string is still \<^verbatim>\<open>INV-999999\<close> and it returns \<^verbatim>\<open>INV-1000000\<close> a second time, a
  number that is not greater than the one before and that the unique column refuses.
\<close>

theorem duplicate_invoice_number:
  "generate_invoice_number default_settings (tables_numbered [''INV-999999'']) = ''INV-1000000''
   \<and> generate_invoice_number default_settings (tables_numbered [''INV-999999'', ''INV-1000000''])
       = ''INV-1000000''"
proof -
  have n: "(999999::int) + 1 = 1000000" by simp
  have c: "''INV'' @ ''-'' = ''INV-''" "''INV'' @ ''-'' @ ''1000000'' = ''INV-1000000''" by simp_all
  show ?thesis
    unfolding generate_invoice_number_def
    by (simp only: numbered_simps default_prefix list.map last_invoice_one last_invoice_two
        option.case Let_def c replace_999999 py_int_999999 n py_str_million zfill_million
        simp_thms)
qed

text \<open>
  The same through \<^verbatim>\<open>create_on_the_fly\<close>: with \<^verbatim>\<open>INV-999999\<close> in the table a
  first call creates the invoice \<^verbatim>\<open>INV-1000000\<close>, and the next call generates
  that number again, so that the database refuses the row (the column
  \<^verbatim>\<open>invoice_number\<close> is unique) and the call raises an \<^verbatim>\<open>IntegrityError\<close>.
\<close>

lemma generate_after_million:
  assumes "invoices db = [numbered_invoice ''INV-999999'', iv]"
    and "invoice_number iv = ''INV-1000000''"
  shows "generate_invoice_number default_settings db = ''INV-1000000''"
proof -
  have l: "last_invoice (invoices db) = Some (numbered_invoice ''INV-999999'')"
    using assms less_million by (simp add: numbered_simps)
  have n: "(999999::int) + 1 = 1000000" by simp
  have c: "''INV'' @ ''-'' = ''INV-''" "''INV'' @ ''-'' @ ''1000000'' = ''INV-1000000''" by simp_all
  show ?thesis
    unfolding generate_invoice_number_def
    by (simp only: l numbered_simps default_prefix option.case Let_def c replace_999999
        py_int_999999 n py_str_million zfill_million)
qed

lemma numbered_tables:
  "users (tables_numbered ns) = []"
  "packages (tables_numbered ns) = [example_package]"
  "customers (tables_numbered ns) = []"
  "vouchers (tables_numbered ns) = [example_voucher]"
  "templates (tables_numbered ns) = []"
  "items (tables_numbered ns) = []"
  by (simp_all add: tables_numbered_def example_tables_def)

lemma default_rates:
  "DEFAULT_SST_RATE default_settings = 8"
  "SHARE_LINK_EXPIRY_DAYS default_settings = 7"
  by (simp_all add: default_settings_def)

lemma numbered_invoice_keys:
  "bubble_id (numbered_invoice n) = ''inv_00112233445566ff''"
  "share_token (numbered_invoice n) = Some ''Zm9vYmFyYmF6cXV4''"
  by (simp_all add: numbered_invoice_def example_invoice_def new_invoice_def example_env_def)

lemma first_at_capacity:
  "map_sum id invoice_number
     (fst (create_on_the_fly default_settings next_env million_session example_args))
     = Inr ''INV-1000000''"
  by (simp add: create_on_the_fly_def create_uncommitted_def commit_and_refresh_def
      handle_customer_def handle_voucher_def find_voucher_def voucher_amount_of_def
      truthy_decimal_def truthy_int_def truthy_str_def truthy_bool_def
      resolve_template_id_def resolve_sst_rate_def
      share_expiry_def microseconds_per_day_def datetime_min_def datetime_max_def new_invoice_def
      insert_invoice_error_def invoice_overflow_def invoice_keys_taken_def
      invoice_references_missing_def user_missing_def
      numeric_overflow_def numeric_overflow_opt_def integer_overflow_opt_def integer_overflow_def
      numeric_round_def round_half_away_def floor_rat_numeral floor_rat_one
      add_invoice_def package_item_def line_item_def package_description_def price_or_zero_def
      add_fixed_discount_def add_percent_discount_def add_voucher_item_def add_epp_fee_item_def
      with_pending_def calculate_invoice_totals_def invoice_items_def query_items_def
      set_added_invoice_def insert_item_error_def item_overflow_def stored_item_def
      stored_invoice_def rollback_def Let_def
      million_session_def numbered_tables numbered_simps numbered_invoice_keys generate_at_capacity
      next_env_def example_env_def example_args_def example_package_def example_voucher_def
      default_rates)

lemma second_creation_refused:
  "\<exists>iv1 s1.
      create_on_the_fly default_settings next_env million_session example_args = (Inr iv1, s1)
    \<and> invoice_number iv1 = ''INV-1000000''
    \<and> create_on_the_fly default_settings third_env s1 example_args
        = (Inl IntegrityError, rollback s1)"
proof -
  obtain r s1 where p: "create_on_the_fly default_settings next_env million_session example_args = (r, s1)"
    by (cases "create_on_the_fly default_settings next_env million_session example_args")
  then obtain iv1 where r: "r = Inr iv1" and num1: "invoice_number iv1 = ''INV-1000000''"
    using first_at_capacity by (cases r) simp_all
  have c1: "create_on_the_fly default_settings next_env million_session example_args = (Inr iv1, s1)"
    using p r by simp
  have w: "working million_session = tables_numbered [''INV-999999'']"
    by (simp add: million_session_def)
  have fresh: "\<forall>it \<in> set (items (working million_session)).
      item_invoice_id it \<noteq> Some (''inv_'' @ invoice_token next_env)"
    by (simp add: w numbered_tables)
  have t1: "invoices (working s1) = invoices (working million_session) @ [iv1]"
    "packages (working s1) = packages (working million_session)"
    "vouchers (working s1) = vouchers (working million_session)"
    "templates (working s1) = templates (working million_session)"
    using created_facts[OF c1 fresh] by blast+
  have f: "find (\<lambda>p. pkg_bubble_id p = arg_package_id example_args) (packages (working s1))
             = Some example_package"
    by (simp add: t1 w numbered_tables example_args_def example_package_def)
  have hc: "handle_customer third_env s1 example_args = Inr (example_snapshot, s1)"
    by (simp add: handle_customer_def example_args_def example_snapshot_def)
  have v: "handle_voucher (working s1) example_package (arg_voucher_code example_args) = Inr 100"
    using example_voucher_amount
      handle_voucher_cong[of "working s1" "working example_session"]
    by (simp add: t1 w numbered_tables example_session_def example_tables_def)
  have ex: "share_expiry default_settings third_env = Inr 1770076800000000"
    by (simp add: share_expiry_def default_settings_def third_env_def example_env_def
        microseconds_per_day_def datetime_min_def datetime_max_def)
  define inv0 where "inv0 = new_invoice default_settings third_env (working s1) example_args
                      example_package example_snapshot 100
                      (resolve_template_id (working s1) (arg_template_id example_args))
                      (resolve_sst_rate default_settings (working s1) (arg_apply_sst example_args)
                         (resolve_template_id (working s1) (arg_template_id example_args)))
                      1770076800000000"
  have "invoices (working s1) = [numbered_invoice ''INV-999999'', iv1]"
    by (simp add: t1 w numbered_simps)
  from generate_after_million[OF this num1]
  have num2: "invoice_number inv0 = ''INV-1000000''" by (simp add: inv0_def new_invoice_def)
  have taken: "invoice_keys_taken (working s1) inv0"
    by (simp add: invoice_keys_taken_def num2 t1 num1)
  have rate: "resolve_sst_rate default_settings (working s1) True
                (resolve_template_id (working s1) None) = 8"
    by (simp add: resolve_sst_rate_def resolve_template_id_def truthy_str_def t1 w numbered_tables
        default_settings_def)
  have fits: "\<not> invoice_overflow inv0"
    by (simp add: invoice_overflow_def inv0_def rate new_invoice_def example_args_def
        numeric_overflow_def numeric_overflow_opt_def integer_overflow_opt_def integer_overflow_def
        numeric_round_def round_half_away_def floor_rat_numeral floor_rat_one)
  have ins: "insert_invoice_error (working s1) inv0 = Some IntegrityError"
    using taken fits by (simp add: insert_invoice_error_def)
  from create_refused[OF f hc v ex inv0_def ins] c1 num1 show ?thesis by blast
qed

section \<open>Invoice numbers within the width\<close>

lemma generate_format:
  "\<exists>n. generate_invoice_number cfg db =
     INVOICE_NUMBER_PREFIX cfg @ ''-'' @ zfill (py_str n) (INVOICE_NUMBER_LENGTH cfg)"
  by (auto simp: generate_invoice_number_def Let_def)

lemma digit_char:
  assumes "k < 10"
  shows "is_digit (''0123456789'' ! k) \<and> digit_value (''0123456789'' ! k) = k"
proof -
  from assms have "k = 0 \<or> k = 1 \<or> k = 2 \<or> k = 3 \<or> k = 4 \<or> k = 5 \<or> k = 6 \<or> k = 7 \<or> k = 8 \<or> k = 9"
    by arith
  then show ?thesis
    by (elim disjE) (simp_all add: is_digit_def digit_value_def)
qed

lemma str_nat_unfold:
  "str_nat n = (if n < 10 then [''0123456789'' ! n]
                else str_nat (n div 10) @ [''0123456789'' ! (n mod 10)])"
  by (rule str_nat.simps)

lemma str_nat_digits: "\<forall>c \<in> set (str_nat n). is_digit c"
proof (induction n rule: str_nat.induct)
  case (1 n)
  show ?case
  proof (cases "n < 10")
    case True
    then show ?thesis using digit_char[of n] by (subst str_nat_unfold) simp
  next
    case False
    then show ?thesis using 1 digit_char[of "n mod 10"] by (subst str_nat_unfold) simp
  qed
qed

lemma str_nat_nonempty: "str_nat n \<noteq> []"
  by (subst str_nat_unfold) simp

lemma digits_value_append:
  "digits_value (xs @ ys) = digits_value xs * 10 ^ length ys + digits_value ys"
  by (induction xs) (simp_all add: power_add algebra_simps)

lemma digits_value_str_nat: "digits_value (str_nat n) = n"
proof (induction n rule: str_nat.induct)
  case (1 n)
  show ?case
  proof (cases "n < 10")
    case True
    then show ?thesis using digit_char[of n] by (subst str_nat_unfold) simp
  next
    case False
    then have "digits_value (str_nat n)
        = digits_value (str_nat (n div 10)) * 10 + digit_value (''0123456789'' ! (n mod 10))"
      by (subst str_nat_unfold) (simp add: digits_value_append)
    also have "\<dots> = (n div 10) * 10 + n mod 10"
      using 1 False digit_char[of "n mod 10"] by simp
    finally show ?thesis by simp
  qed
qed

lemma digits_value_bound:
  "\<forall>c \<in> set ds. is_digit c \<Longrightarrow> digits_value ds < 10 ^ length ds"
proof (induction ds)
  case Nil
  then show ?case by simp
next
  case (Cons c cs)
  then have d: "digit_value c \<le> 9" by (auto simp: is_digit_def digit_value_def)
  have "digits_value cs < 10 ^ length cs" using Cons by simp
  moreover have "digit_value c * 10 ^ length cs \<le> 9 * 10 ^ length cs"
    using d by (rule mult_le_mono1)
  ultimately have "digit_value c * 10 ^ length cs + digits_value cs
      < 9 * 10 ^ length cs + 10 ^ length cs" by (rule add_le_less_mono[rotated])
  then show ?case by simp
qed

lemma str_nat_length:
  "n < 10 ^ w \<Longrightarrow> 0 < w \<Longrightarrow> length (str_nat n) \<le> w"
proof (induction n arbitrary: w rule: str_nat.induct)
  case (1 n)
  show ?case
  proof (cases "n < 10")
    case True
    then show ?thesis using "1.prems" by (subst str_nat_unfold) simp
  next
    case False
    then obtain w' where w: "w = Suc w'" using "1.prems" by (cases w) auto
    have "0 < w'" using False "1.prems" w by (cases w') auto
    moreover have "n div 10 < 10 ^ w'" using "1.prems" w by (simp add: less_mult_imp_div_less)
    ultimately have "length (str_nat (n div 10)) \<le> w'" using 1 False by simp
    then show ?thesis using False w by (subst str_nat_unfold) simp
  qed
qed


lemma digit_not_sign: "is_digit c \<Longrightarrow> c \<noteq> CHR ''-'' \<and> c \<noteq> CHR ''+'' \<and> c \<noteq> CHR ''_''"
  by (auto simp: is_digit_def)

lemma digit_not_space: "is_digit c \<Longrightarrow> \<not> is_space c"
  by (auto simp: is_digit_def is_space_def)

lemma zero_digit: "is_digit CHR ''0''" "digit_value CHR ''0'' = 0"
  by (simp_all add: is_digit_def digit_value_def)

lemma zfill_str_nat:
  "zfill (py_str (int n)) w = replicate (nat w - length (str_nat n)) CHR ''0'' @ str_nat n"
proof -
  have p: "py_str (int n) = str_nat n" by (simp add: py_str_def)
  obtain c cs where s: "str_nat n = c # cs" using str_nat_nonempty[of n] by (cases "str_nat n") auto
  then have "is_digit c" using str_nat_digits[of n] by simp
  then have "c \<noteq> CHR ''+''" "c \<noteq> CHR ''-''" using digit_not_sign by blast+
  then show ?thesis unfolding p by (auto simp: zfill_def s)
qed

lemma int_digits_all:
  "ds \<noteq> [] \<Longrightarrow> \<forall>c \<in> set ds. is_digit c \<Longrightarrow>
   int_digits acc ds = Some (acc * 10 ^ length ds + digits_value ds)"
proof (induction acc ds rule: int_digits.induct)
  case (1 acc)
  then show ?case by simp
next
  case (2 acc c)
  then show ?case by simp
next
  case (3 acc c d cs)
  then show ?case by (simp add: algebra_simps)
qed

lemma strip_digits:
  assumes "ds \<noteq> []" "\<forall>c \<in> set ds. is_digit c"
  shows "strip ds = ds"
proof -
  obtain c cs where s: "ds = c # cs" using assms(1) by (cases ds) auto
  then have "\<not> is_space c" using assms(2) digit_not_space by simp
  then have a: "dropWhile is_space ds = ds" using s by simp
  have "rev ds \<noteq> []" using assms(1) by simp
  then obtain d ds' where r: "rev ds = d # ds'" by (cases "rev ds") auto
  then have "d \<in> set ds" by (metis list.set_intros(1) set_rev)
  then have "\<not> is_space d" using assms(2) digit_not_space by blast
  then have "dropWhile is_space (rev ds) = rev ds" using r by simp
  then show ?thesis by (simp add: strip_def a)
qed

lemma py_int_digits:
  assumes "ds \<noteq> []" "\<forall>c \<in> set ds. is_digit c"
  shows "py_int ds = Some (int (digits_value ds))"
proof -
  obtain c cs where s: "ds = c # cs" using assms(1) by (cases ds) auto
  then have d: "is_digit c" using assms(2) by simp
  then have n: "c \<noteq> CHR ''-''" "c \<noteq> CHR ''+''" using digit_not_sign by blast+
  have i: "int_digits 0 (c # cs) = Some (digits_value (c # cs))"
    using int_digits_all[of "c # cs" 0] assms s by simp
  have st: "strip (c # cs) = c # cs" using strip_digits[OF assms] s by simp
  show ?thesis
    unfolding s py_int_def st using d n by (simp add: i del: digits_value.simps int_digits.simps)
qed

lemma replace_prefix:
  "old \<noteq> [] \<Longrightarrow> replace_with_empty old (old @ rest) = replace_with_empty old rest"
  by (cases old) simp_all

lemma replace_absent:
  "old \<noteq> [] \<Longrightarrow> last old \<notin> set s \<Longrightarrow> replace_with_empty old s = s"
proof (induction s)
  case Nil
  then show ?case by simp
next
  case (Cons c cs)
  have "take (length old) (c # cs) \<noteq> old"
  proof
    assume "take (length old) (c # cs) = old"
    then have "set old \<subseteq> set (c # cs)" by (metis set_take_subset)
    then show False using Cons.prems by (meson last_in_set subsetD)
  qed
  then show ?case using Cons by simp
qed

lemma replace_formatted:
  assumes "\<forall>c \<in> set ds. is_digit c"
  shows "replace_with_empty (pre @ ''-'') (pre @ ''-'' @ ds) = ds"
proof -
  have "CHR ''-'' \<notin> set ds" using assms digit_not_sign by blast
  then have "replace_with_empty (pre @ ''-'') ds = ds"
    using replace_absent[of "pre @ ''-''" ds] by simp
  then show ?thesis using replace_prefix[of "pre @ ''-''" ds] by simp
qed


lemma digits_value_zeros: "digits_value (replicate k CHR ''0'') = 0"
  by (induction k) (simp_all add: zero_digit)

lemma padded_properties:
  assumes "n < 10 ^ w" "0 < w"
  shows "length (replicate (w - length (str_nat n)) CHR ''0'' @ str_nat n) = w"
    and "\<forall>c \<in> set (replicate (w - length (str_nat n)) CHR ''0'' @ str_nat n). is_digit c"
    and "digits_value (replicate (w - length (str_nat n)) CHR ''0'' @ str_nat n) = n"
    and "replicate (w - length (str_nat n)) CHR ''0'' @ str_nat n \<noteq> []"
proof -
  show "length (replicate (w - length (str_nat n)) CHR ''0'' @ str_nat n) = w"
    using str_nat_length[OF assms] by simp
  show "\<forall>c \<in> set (replicate (w - length (str_nat n)) CHR ''0'' @ str_nat n). is_digit c"
    using str_nat_digits[of n] zero_digit(1) by auto
  show "digits_value (replicate (w - length (str_nat n)) CHR ''0'' @ str_nat n) = n"
    by (simp add: digits_value_append digits_value_zeros digits_value_str_nat)
  show "replicate (w - length (str_nat n)) CHR ''0'' @ str_nat n \<noteq> []"
    using str_nat_nonempty by simp
qed

lemma digit_char_order:
  "is_digit c \<Longrightarrow> is_digit d \<Longrightarrow>
   ((of_char c :: nat) < of_char d \<longleftrightarrow> digit_value c < digit_value d)
   \<and> (c = d \<longleftrightarrow> digit_value c = digit_value d)"
proof -
  assume a: "is_digit c" "is_digit d"
  have i: "(of_char c :: nat) = of_char d \<longleftrightarrow> c = d" by simp
  have "digit_value c = digit_value d \<longleftrightarrow> (of_char c :: nat) = of_char d"
    using a unfolding is_digit_def digit_value_def by arith
  moreover have "digit_value c < digit_value d \<longleftrightarrow> (of_char c :: nat) < of_char d"
    using a unfolding is_digit_def digit_value_def by arith
  ultimately show ?thesis using i by simp
qed

lemma leading_digit_order:
  fixes a b x y K :: nat
  assumes "x < K" "y < K"
  shows "a * K + x < b * K + y \<longleftrightarrow> a < b \<or> (a = b \<and> x < y)"
proof (cases "a < b")
  case True
  then have "Suc a \<le> b" by simp
  then have "Suc a * K \<le> b * K" by (rule mult_le_mono1)
  then have "a * K + x < b * K + y" using assms(1) by simp
  then show ?thesis using True by simp
next
  case False
  show ?thesis
  proof (cases "a = b")
    case True
    then show ?thesis by simp
  next
    case neq: False
    then have "Suc b \<le> a" using False by simp
    then have "Suc b * K \<le> a * K" by (rule mult_le_mono1)
    then have "\<not> a * K + x < b * K + y" using assms(2) by simp
    then show ?thesis using False neq by simp
  qed
qed

lemma str_less_digits:
  assumes "length a = length b" "\<forall>c \<in> set a. is_digit c" "\<forall>c \<in> set b. is_digit c"
  shows "str_less a b \<longleftrightarrow> digits_value a < digits_value b"
  using assms
proof (induction a b rule: list_induct2)
  case Nil
  then show ?case by simp
next
  case (Cons x xs y ys)
  have ih: "str_less xs ys \<longleftrightarrow> digits_value xs < digits_value ys" using Cons by simp
  have bx: "digits_value xs < 10 ^ length ys" using digits_value_bound[of xs] Cons by simp
  have by': "digits_value ys < 10 ^ length ys" using digits_value_bound[of ys] Cons by simp
  have o: "((of_char x :: nat) < of_char y \<longleftrightarrow> digit_value x < digit_value y)"
    "(x = y \<longleftrightarrow> digit_value x = digit_value y)"
    using digit_char_order[of x y] Cons.prems by simp_all
  show ?case
    using leading_digit_order[OF bx by', of "digit_value x" "digit_value y"] Cons.hyps
    by (simp add: ih o)
qed

lemma str_less_prefix: "str_less (p @ a) (p @ b) = str_less a b"
  by (induction p) simp_all

lemma formatted_order:
  assumes "n < 10 ^ nat (INVOICE_NUMBER_LENGTH cfg)" "m < 10 ^ nat (INVOICE_NUMBER_LENGTH cfg)"
    and w: "0 < nat (INVOICE_NUMBER_LENGTH cfg)"
  shows "str_less (formatted_number cfg n) (formatted_number cfg m) \<longleftrightarrow> n < m"
proof -
  let ?w = "nat (INVOICE_NUMBER_LENGTH cfg)"
  let ?pn = "replicate (?w - length (str_nat n)) CHR ''0'' @ str_nat n"
  let ?pm = "replicate (?w - length (str_nat m)) CHR ''0'' @ str_nat m"
  have "str_less (formatted_number cfg n) (formatted_number cfg m) = str_less ?pn ?pm"
    using str_less_prefix[of "INVOICE_NUMBER_PREFIX cfg @ ''-''" ?pn ?pm]
    by (simp add: formatted_number_def zfill_str_nat)
  also have "\<dots> \<longleftrightarrow> digits_value ?pn < digits_value ?pm"
    using padded_properties(1,2)[OF assms(1) w] padded_properties(1,2)[OF assms(2) w]
    by (intro str_less_digits) simp_all
  also have "\<dots> \<longleftrightarrow> n < m"
    using padded_properties(3)[OF assms(1) w] padded_properties(3)[OF assms(2) w] by simp
  finally show ?thesis .
qed

lemma last_invoice_greatest:
  assumes "map invoice_number xs = map F ns" "ns \<noteq> []"
    and "\<forall>n \<in> set ns. \<forall>m \<in> set ns. str_less (F n) (F m) \<longleftrightarrow> n < m"
  shows "map_option invoice_number (last_invoice xs) = Some (F (Max (set ns)))"
  using assms
proof (induction xs arbitrary: ns)
  case Nil
  then show ?case by simp
next
  case (Cons x xs)
  then obtain n ns' where ns: "ns = n # ns'" by (cases ns) auto
  have hx: "invoice_number x = F n" and tl: "map invoice_number xs = map F ns'"
    using Cons.prems(1) ns by simp_all
  show ?case
  proof (cases "ns' = []")
    case True
    then have "xs = []" using tl by simp
    then show ?thesis using hx ns True by simp
  next
    case False
    have "\<forall>n \<in> set ns'. \<forall>m \<in> set ns'. str_less (F n) (F m) \<longleftrightarrow> n < m"
      using Cons.prems(3) ns by simp
    from Cons.IH[OF tl False this]
    obtain y where y: "last_invoice xs = Some y" "invoice_number y = F (Max (set ns'))" by auto
    have mem: "Max (set ns') \<in> set ns'" using False by simp
    then have cmp: "str_less (F n) (F (Max (set ns'))) \<longleftrightarrow> n < Max (set ns')"
      using Cons.prems(3) ns by simp
    have mx: "Max (set ns) = max n (Max (set ns'))" using ns False by simp
    show ?thesis using y hx cmp mx by (auto simp: max_def)
  qed
qed


text \<open>
  Up to the capacity of the width the generator does what the claim describes: on an
  empty table it returns number 1, and on a table whose numbers are the formatted
  numbers of a non-empty list \<open>ns\<close> with \<open>n + 1 < 10 ^ width\<close> it returns the formatted
  successor of the greatest of them, which is greater, as a string, than every number
  in the table.
\<close>

lemma generate_on_empty:
  "invoices db = [] \<Longrightarrow> generate_invoice_number cfg db = formatted_number cfg 1"
  by (simp add: generate_invoice_number_def formatted_number_def)

lemma generate_in_range:
  assumes nums: "map invoice_number (invoices db) = map (formatted_number cfg) ns"
    and ne: "ns \<noteq> []"
    and range: "\<forall>n \<in> set ns. Suc n < 10 ^ nat (INVOICE_NUMBER_LENGTH cfg)"
  shows "generate_invoice_number cfg db = formatted_number cfg (Suc (Max (set ns)))"
    and "\<forall>i \<in> set (invoices db). str_less (invoice_number i) (generate_invoice_number cfg db)"
proof -
  let ?w = "nat (INVOICE_NUMBER_LENGTH cfg)"
  let ?M = "Max (set ns)"
  have M: "?M \<in> set ns" using ne by simp
  have w: "0 < ?w"
  proof (rule ccontr)
    assume "\<not> 0 < ?w"
    then have "?w = 0" by simp
    then show False using range M by auto
  qed
  have lt: "\<forall>n \<in> set ns. n < 10 ^ ?w" using range by (auto dest: Suc_lessD)
  have ord: "\<forall>n \<in> set ns. \<forall>m \<in> set ns.
      str_less (formatted_number cfg n) (formatted_number cfg m) \<longleftrightarrow> n < m"
    using formatted_order[OF _ _ w] lt by blast
  obtain y where y: "last_invoice (invoices db) = Some y"
    "invoice_number y = formatted_number cfg ?M"
    using last_invoice_greatest[OF nums ne ord] by auto
  let ?pm = "replicate (?w - length (str_nat ?M)) CHR ''0'' @ str_nat ?M"
  have Mlt: "?M < 10 ^ ?w" using lt M by blast
  have f: "formatted_number cfg ?M = INVOICE_NUMBER_PREFIX cfg @ ''-'' @ ?pm"
    by (simp add: formatted_number_def zfill_str_nat)
  have r: "replace_with_empty (INVOICE_NUMBER_PREFIX cfg @ ''-'') (formatted_number cfg ?M) = ?pm"
    unfolding f using padded_properties(2)[OF Mlt w] by (rule replace_formatted)
  have p: "py_int ?pm = Some (int ?M)"
    using py_int_digits[OF padded_properties(4)[OF Mlt w] padded_properties(2)[OF Mlt w]]
      padded_properties(3)[OF Mlt w] by simp
  have i: "int ?M + 1 = int (Suc ?M)" by simp
  show g: "generate_invoice_number cfg db = formatted_number cfg (Suc ?M)"
    unfolding generate_invoice_number_def
    by (simp only: y option.case Let_def r p i) (simp only: formatted_number_def)
  show "\<forall>i \<in> set (invoices db). str_less (invoice_number i) (generate_invoice_number cfg db)"
  proof
    fix i assume "i \<in> set (invoices db)"
    then have "invoice_number i \<in> set (map (formatted_number cfg) ns)"
      using nums by (metis image_eqI list.set_map)
    then obtain n where n: "n \<in> set ns" "invoice_number i = formatted_number cfg n" by auto
    have a: "n < Suc ?M" using n(1) by (simp add: less_Suc_eq_le)
    have b: "Suc ?M < 10 ^ ?w" using range M by blast
    have c: "n < 10 ^ ?w" using lt n(1) by blast
    show "str_less (invoice_number i) (generate_invoice_number cfg db)"
      unfolding g n(2) using formatted_order[OF c b w] a by blast
  qed
qed

end
